theory Spec2Isabelle
  imports Complex_Main "HOL-Library.Word"
begin

section \<open>Data model\<close>

text \<open>
  The embedding follows the C++ sources of the CEGUI widgets, the OpenGL 3 renderer and the
  Inventory sample. The \<open>float\<close> values of the source are modelled as real numbers: every
  number that occurs in the properties below (8, 50, 100, 200, 300, 500, ...) and every sum
  and difference formed from them is exactly representable as a binary float, so rounding
  does not enter; NaN and infinities are left out.
\<close>

type_synonym float = real

subsection \<open>Window update mode (Window.h)\<close>

datatype WindowUpdateMode = Always | Never | Visible

text \<open>\<open>PropertyHelper<WindowUpdateMode>::fromString\<close>: two exact comparisons, then the fallback.\<close>

definition fromString :: "string \<Rightarrow> WindowUpdateMode" where
  "fromString str =
     (if str = ''Always'' then Always
      else if str = ''Never'' then Never
      else Visible)"

text \<open>
  \<open>PropertyHelper<WindowUpdateMode>::toString\<close>. The last branch is the source's
  \<open>assert(false)\<close> branch with its release-build return value; no value of the enumeration
  reaches it.
\<close>

definition toString :: "WindowUpdateMode \<Rightarrow> string" where
  "toString val =
     (if val = Always then ''Always''
      else if val = Never then ''Never''
      else if val = Visible then ''Visible''
      else ''Always'')"

subsection \<open>Window visibility (Window.h)\<close>

text \<open>
  A window holds its own \<open>d_visible\<close> flag and the \<open>d_parent\<close> pointer, which is null for a
  root window. The parent chain of the GUI tree is finite and acyclic, which the datatype
  expresses.
\<close>

datatype Window = Window (d_visible: bool) (d_parent: "Window option")

text \<open>\<open>return d_visible && (!d_parent || getParent()->isEffectiveVisible());\<close>\<close>

fun isEffectiveVisible :: "Window \<Rightarrow> bool" where
  "isEffectiveVisible (Window vis par) =
     (vis \<and> (par = None \<or> (case par of None \<Rightarrow> False | Some p \<Rightarrow> isEffectiveVisible p)))"

text \<open>The chain of ancestors of a window, nearest first.\<close>

fun ancestors :: "Window \<Rightarrow> Window list" where
  "ancestors (Window vis par) = (case par of None \<Rightarrow> [] | Some p \<Rightarrow> p # ancestors p)"

subsection \<open>Geometry types\<close>

text \<open>
  \<open>glm::vec2\<close>, and the CEGUI templates \<open>Vector2<T>\<close>, \<open>Size<T>\<close> and \<open>Rect<T>\<close> with the
  instances the widgets use: \<open>Sizef = Size<float>\<close>, \<open>USize = Size<UDim>\<close>,
  \<open>UVector2 = Vector2<UDim>\<close>, \<open>Rectf\<close> (corners of type \<open>glm::vec2\<close>) and \<open>URect\<close>
  (corners of type \<open>UVector2\<close>).
\<close>

record vec2 =
  vec2_x :: float
  vec2_y :: float

record UDim =
  d_scale :: float
  d_offset :: float

record 'a Vector2 =
  d_x :: 'a
  d_y :: 'a

record 'a Size =
  d_width :: 'a
  d_height :: 'a

record 'v Rect =
  d_min :: 'v
  d_max :: 'v

type_synonym Sizef = "float Size"
type_synonym USize = "UDim Size"
type_synonym UVector2 = "UDim Vector2"
type_synonym Rectf = "vec2 Rect"
type_synonym URect = "UVector2 Rect"

text \<open>
  Modelled from the spec: \<open>Rectf::isPointInRectf\<close> is declared outside src/. The spec has
  the point tested "against the outer sizing rect" and a point outside it rejected; the
  test is taken half-open, the minimum edges inside and the maximum edges outside, which is
  the convention the inner-edge comparisons of \<open>getSizingBorderAtPoint\<close> use themselves.
\<close>

definition isPointInRectf :: "Rectf \<Rightarrow> vec2 \<Rightarrow> bool" where
  "isPointInRectf r v =
     (\<not> (vec2_x (d_min r) > vec2_x v \<or> vec2_x (d_max r) \<le> vec2_x v \<or>
         vec2_y (d_min r) > vec2_y v \<or> vec2_y (d_max r) \<le> vec2_y v))"

text \<open>
  Modelled from the spec: \<open>CoordConverter::asAbsolute\<close> is declared outside src/. The spec
  describes a unit dimension as "offset + parent-relative scale", resolved "to absolute
  pixels" against a base size.
\<close>

definition asAbsolute :: "UDim \<Rightarrow> float \<Rightarrow> float" where
  "asAbsolute u base = base * d_scale u + d_offset u"

text \<open>
  Modelled from the spec: \<open>Rect<UDim>::getSize\<close> is declared outside src/; the size of an
  area is the component-wise difference of its two corners.
\<close>

definition UDim_minus :: "UDim \<Rightarrow> UDim \<Rightarrow> UDim" where
  "UDim_minus a b = \<lparr>d_scale = d_scale a - d_scale b, d_offset = d_offset a - d_offset b\<rparr>"

definition URect_getSize :: "URect \<Rightarrow> USize" where
  "URect_getSize r =
     \<lparr>d_width = UDim_minus (d_x (d_max r)) (d_x (d_min r)),
      d_height = UDim_minus (d_y (d_max r)) (d_y (d_min r))\<rparr>"

text \<open>The compound assignments \<open>a.d_max.d_x.d_offset += v\<close> and \<open>a.d_min.d_x.d_offset += v\<close>.\<close>

definition add_max_x_offset :: "float \<Rightarrow> URect \<Rightarrow> URect" where
  "add_max_x_offset v a =
     a\<lparr>d_max := (d_max a)\<lparr>d_x := (d_x (d_max a))\<lparr>d_offset := d_offset (d_x (d_max a)) + v\<rparr>\<rparr>\<rparr>"

definition add_min_x_offset :: "float \<Rightarrow> URect \<Rightarrow> URect" where
  "add_min_x_offset v a =
     a\<lparr>d_min := (d_min a)\<lparr>d_x := (d_x (d_min a))\<lparr>d_offset := d_offset (d_x (d_min a)) + v\<rparr>\<rparr>\<rparr>"

subsection \<open>FrameWindow (FrameWindow.cpp)\<close>

datatype SizingLocation =
  Invalid | TopLeft | TopRight | BottomLeft | BottomRight | Top | Bottom | Left | Right

datatype HorizontalAlignment =
  HorizontalAlignment_Left | HorizontalAlignment_Centre | HorizontalAlignment_Right

text \<open>
  The fields of a FrameWindow that sizing reads and writes. \<open>sizingRect\<close>,
  \<open>rootContainerSize\<close> and \<open>basePixelSize\<close> hold what the accessors \<open>getSizingRect()\<close>,
  \<open>getRootContainerSize()\<close> and \<open>getBasePixelSize()\<close> (declared outside src/) return for the
  window.
\<close>

record FrameWindow =
  d_frameEnabled :: bool
  d_sizingEnabled :: bool
  d_borderSize :: float
  sizingRect :: Rectf
  d_pixelSize :: Sizef
  d_minSize :: USize
  d_maxSize :: USize
  d_area :: URect
  d_horizontalAlignment :: HorizontalAlignment
  d_dragPoint :: vec2
  rootContainerSize :: Sizef
  basePixelSize :: Sizef

definition isSizingEnabled :: "FrameWindow \<Rightarrow> bool" where
  "isSizingEnabled fw = d_sizingEnabled fw"

definition isFrameEnabled :: "FrameWindow \<Rightarrow> bool" where
  "isFrameEnabled fw = d_frameEnabled fw"

definition getSize :: "FrameWindow \<Rightarrow> USize" where
  "getSize fw = URect_getSize (d_area fw)"

text \<open>
  The four statements \<open>frame.d_min.x += d_borderSize; frame.d_min.y += d_borderSize;
  frame.d_max.x -= d_borderSize; frame.d_max.y -= d_borderSize;\<close> that turn the outer rect
  into the inner one.
\<close>

definition inset :: "float \<Rightarrow> Rectf \<Rightarrow> Rectf" where
  "inset b frame =
     \<lparr>d_min = \<lparr>vec2_x = vec2_x (d_min frame) + b, vec2_y = vec2_y (d_min frame) + b\<rparr>,
      d_max = \<lparr>vec2_x = vec2_x (d_max frame) - b, vec2_y = vec2_y (d_max frame) - b\<rparr>\<rparr>"

text \<open>
  \<open>FrameWindow::getSizingBorderAtPoint\<close>. The sizing test is made only when sizing and the
  frame are both enabled and the point is inside the outer rect. A point that is on no edge
  of the inner rect falls through to the default \<open>Invalid\<close>.
\<close>

definition getSizingBorderAtPoint :: "FrameWindow \<Rightarrow> vec2 \<Rightarrow> SizingLocation" where
  "getSizingBorderAtPoint fw pt =
     (let frame = sizingRect fw in
      if isSizingEnabled fw \<and> isFrameEnabled fw then
        if isPointInRectf frame pt then
          let frame = inset (d_borderSize fw) frame;
              top = (vec2_y pt < vec2_y (d_min frame));
              bottom = (vec2_y pt \<ge> vec2_y (d_max frame));
              left = (vec2_x pt < vec2_x (d_min frame));
              right = (vec2_x pt \<ge> vec2_x (d_max frame))
          in if top \<and> left then TopLeft
             else if top \<and> right then TopRight
             else if bottom \<and> left then BottomLeft
             else if bottom \<and> right then BottomRight
             else if top then Top
             else if bottom then Bottom
             else if left then Left
             else if right then Right
             else Invalid
        else Invalid
      else Invalid)"

text \<open>
  \<open>FrameWindow::moveRightEdge(delta, outArea)\<close>: the new width is the pixel width plus the
  delta, limited to the maximum (when the maximum is not 0) or else to the minimum; the area
  is then adjusted by the difference to the width it has without limits, according to the
  horizontal alignment, and the drag point follows the edge. The function returns the
  updated \<open>outArea\<close> and window.
\<close>

definition moveRightEdge :: "float \<Rightarrow> URect \<Rightarrow> FrameWindow \<Rightarrow> URect \<times> FrameWindow" where
  "moveRightEdge delta outArea fw =
     (let newWidth = d_width (d_pixelSize fw) + delta;
          rootWidth = d_width (rootContainerSize fw);
          maxWidth = asAbsolute (d_width (d_maxSize fw)) rootWidth;
          minWidth = asAbsolute (d_width (d_minSize fw)) rootWidth;
          newWidth = (if maxWidth \<noteq> 0 \<and> newWidth > maxWidth then maxWidth
                      else if newWidth < minWidth then minWidth
                      else newWidth);
          unlimitedWidth = asAbsolute (d_width (getSize fw)) (d_width (basePixelSize fw))
      in if unlimitedWidth = newWidth then (outArea, fw)
         else
           let adjustment = newWidth - unlimitedWidth;
               outArea = add_max_x_offset adjustment outArea;
               outArea =
                 (if d_horizontalAlignment fw = HorizontalAlignment_Right then
                    add_min_x_offset adjustment (add_max_x_offset adjustment outArea)
                  else if d_horizontalAlignment fw = HorizontalAlignment_Centre then
                    add_min_x_offset (adjustment * 0.5) (add_max_x_offset (adjustment * 0.5) outArea)
                  else outArea)
           in (outArea,
               fw\<lparr>d_dragPoint := (d_dragPoint fw)
                  \<lparr>vec2_x := vec2_x (d_dragPoint fw) + (newWidth - d_width (d_pixelSize fw))\<rparr>\<rparr>))"


subsection \<open>OpenGL 3 renderer: blend mode and vertex upload (GL3Renderer.cpp)\<close>

text \<open>
  Modelled from the spec: the \<open>BlendMode\<close> enumeration is declared outside src/; the spec
  names two modes, Normal and RttPremultiplied.
\<close>

datatype BlendMode = Normal | RttPremultiplied

datatype GLenum =
  GL_ZERO | GL_ONE | GL_SRC_ALPHA | GL_ONE_MINUS_SRC_ALPHA | GL_ONE_MINUS_DST_ALPHA
  | GL_ARRAY_BUFFER | GL_DYNAMIC_DRAW

type_synonym GLuint = "32 word"

text \<open>
  The calls the two functions make on the state-change wrapper (\<open>blendFunc\<close>,
  \<open>blendFuncSeparate\<close>, \<open>bindBuffer\<close>) and on OpenGL itself (\<open>glBufferData\<close>,
  \<open>glBufferSubData\<close>), with their arguments; byte counts and offsets are \<open>nat\<close>.
\<close>

datatype gl_call =
  blendFunc GLenum GLenum
  | blendFuncSeparate GLenum GLenum GLenum GLenum
  | bindBuffer GLenum GLuint
  | glBufferData GLenum nat "float list" GLenum
  | glBufferSubData GLenum nat nat "float list"

text \<open>
  The renderer state the two functions touch: the cached blend mode, the two big-buffer
  capacities with their buffer names, and the calls issued so far, oldest first.
\<close>

record OpenGL3Renderer =
  d_activeBlendMode :: BlendMode
  d_verticesSolidVBO :: GLuint
  d_verticesSolidVBOSize :: GLuint
  d_verticesTexturedVBO :: GLuint
  d_verticesTexturedVBOSize :: GLuint
  gl_calls :: "gl_call list"

definition issue :: "gl_call \<Rightarrow> OpenGL3Renderer \<Rightarrow> OpenGL3Renderer" where
  "issue c r = r\<lparr>gl_calls := gl_calls r @ [c]\<rparr>"

text \<open>\<open>OpenGL3Renderer::setupRenderingBlendMode(mode, force)\<close>.\<close>

definition setupRenderingBlendMode :: "BlendMode \<Rightarrow> bool \<Rightarrow> OpenGL3Renderer \<Rightarrow> OpenGL3Renderer" where
  "setupRenderingBlendMode mode force r =
     (if d_activeBlendMode r = mode \<and> \<not> force then r
      else
        let r = r\<lparr>d_activeBlendMode := mode\<rparr> in
        if d_activeBlendMode r = RttPremultiplied then
          issue (blendFunc GL_ONE GL_ONE_MINUS_SRC_ALPHA) r
        else
          issue (blendFuncSeparate GL_SRC_ALPHA GL_ONE_MINUS_SRC_ALPHA GL_ONE_MINUS_DST_ALPHA GL_ONE) r)"

text \<open>
  \<open>OpenGL3Renderer::uploadVertexData(vertex_data, vbo_id, vbo_max_size)\<close>; the reference
  parameter \<open>vbo_max_size\<close> is returned with the renderer. \<open>vertex_data.size() *
  sizeof(float)\<close> is a \<open>size_t\<close> product with \<open>sizeof(float) = 4\<close>; on a 64-bit target it
  cannot overflow for a vector that exists, so it is a \<open>nat\<close> here. The comparison converts
  the 32-bit \<open>vbo_max_size\<close> to \<open>size_t\<close>; the assignment back to the \<open>GLuint\<close> keeps the
  low 32 bits.
\<close>

definition uploadVertexData ::
  "float list \<Rightarrow> GLuint \<Rightarrow> GLuint \<Rightarrow> OpenGL3Renderer \<Rightarrow> GLuint \<times> OpenGL3Renderer" where
  "uploadVertexData vertex_data vbo_id vbo_max_size r =
     (if vertex_data = [] then (vbo_max_size, r)
      else
        let r = issue (bindBuffer GL_ARRAY_BUFFER vbo_id) r in
        if length vertex_data * 4 > unat vbo_max_size then
          (of_nat (length vertex_data * 4),
           issue (glBufferData GL_ARRAY_BUFFER (length vertex_data * 4) vertex_data GL_DYNAMIC_DRAW) r)
        else
          (vbo_max_size,
           issue (glBufferSubData GL_ARRAY_BUFFER 0 (length vertex_data * 4) vertex_data) r))"

subsection \<open>OpenGL 3 renderer: system bootstrap (GL3Renderer.cpp)\<close>

text \<open>
  The failures of the bootstrap functions. \<open>InvalidRequestException\<close> and
  \<open>RendererException\<close> are thrown in the source with the messages kept here. The kind of
  failure raised by the version test is not visible under src/ and the spec does not name
  it, so it has a constructor of its own.
\<close>

datatype error =
  InvalidRequestException string
  | RendererException string
  | VersionTestFailure

text \<open>
  What \<open>OpenGLInfo::getSingleton()\<close> reports, and the value of the macro
  \<open>CEGUI_VERSION_ABI\<close> the library was compiled with (both from outside src/).
\<close>

record Environment =
  isUsingOpenglEs :: bool
  isUsingDesktopOpengl :: bool
  verMajor :: int
  CEGUI_VERSION_ABI :: int

text \<open>
  A renderer as the bootstrap functions see it: the object the constructor has built, with
  the display size it was given (if any) and its identification string.
\<close>

record RendererObject =
  display_size :: "Sizef option"
  d_rendererID :: string

datatype DefaultResourceProvider = DefaultResourceProvider

text \<open>The System singleton with the renderer and resource provider it was created with.\<close>

record System =
  getRenderer :: RendererObject
  getResourceProvider :: DefaultResourceProvider

text \<open>
  Modelled from the spec: \<open>System::performVersionTest\<close> is declared outside src/. The spec:
  all entry points "perform an ABI version compatibility check against the caller's
  compiled-in version before doing anything else, and fail fast if mismatched".
\<close>

definition performVersionTest :: "int \<Rightarrow> int \<Rightarrow> error + unit" where
  "performVersionTest expected received =
     (if expected \<noteq> received then Inl VersionTestFailure else Inr ())"

text \<open>
  The constructors \<open>OpenGL3Renderer()\<close> and \<open>OpenGL3Renderer(display_size)\<close>, which run
  \<open>init()\<close>: OpenGL ES below version 2 is refused; otherwise the identification string is
  set by \<open>initialiseRendererIDString\<close> and extended by \<open>initialiseTextureTargetFactory\<close>.
\<close>

definition new_OpenGL3Renderer :: "Environment \<Rightarrow> Sizef option \<Rightarrow> error + RendererObject" where
  "new_OpenGL3Renderer env sz =
     (if isUsingOpenglEs env \<and> verMajor env < 2 then
        Inl (RendererException
          ''Only version 2 and up of OpenGL ES is supported by this type of renderer.'')
      else
        Inr \<lparr>display_size = sz,
             d_rendererID =
               (if isUsingDesktopOpengl env
                then ''CEGUI::OpenGL3Renderer - Official OpenGL 3.2 core based renderer module.''
                else ''CEGUI::OpenGL3Renderer - OpenGL ES 2 renderer module.'')
               @ ''  TextureTarget support enabled via FBO OGL 3.2 core implementation.''\<rparr>)"

text \<open>\<open>OpenGL3Renderer::create(abi)\<close> and \<open>create(display_size, abi)\<close>.\<close>

definition create :: "Environment \<Rightarrow> Sizef option \<Rightarrow> int \<Rightarrow> error + RendererObject" where
  "create env sz abi =
     (case performVersionTest (CEGUI_VERSION_ABI env) abi of
        Inl e \<Rightarrow> Inl e
      | Inr _ \<Rightarrow> new_OpenGL3Renderer env sz)"

text \<open>
  \<open>OpenGL3Renderer::bootstrapSystem(abi)\<close> and \<open>bootstrapSystem(display_size, abi)\<close>; the
  two overloads differ only in the display size they hand to \<open>create\<close>, which is \<open>None\<close>
  for the first. The state is the System singleton pointer, null when no System exists;
  the function returns the renderer or the failure thrown, and the singleton afterwards.
  The inner call of \<open>create\<close> leaves the \<open>abi\<close> argument to its default, the library's own
  \<open>CEGUI_VERSION_ABI\<close>. \<open>System::create\<close> (outside src/) installs the new System as the
  singleton.
\<close>

definition bootstrapSystem ::
  "Environment \<Rightarrow> Sizef option \<Rightarrow> int \<Rightarrow> System option \<Rightarrow> (error + RendererObject) \<times> System option" where
  "bootstrapSystem env sz abi singleton =
     (case performVersionTest (CEGUI_VERSION_ABI env) abi of
        Inl e \<Rightarrow> (Inl e, singleton)
      | Inr _ \<Rightarrow>
          if singleton \<noteq> None then
            (Inl (InvalidRequestException ''CEGUI::System object is already initialised.''),
             singleton)
          else
            (case create env sz (CEGUI_VERSION_ABI env) of
               Inl e \<Rightarrow> (Inl e, singleton)
             | Inr renderer \<Rightarrow>
                 let rp = DefaultResourceProvider in
                 (Inr renderer, Some \<lparr>getRenderer = renderer, getResourceProvider = rp\<rparr>)))"

text \<open>
  \<open>OpenGL3Renderer::destroySystem()\<close>: fails when the singleton pointer is null, otherwise
  destroys the System, its resource provider and its renderer.
\<close>

definition destroySystem :: "System option \<Rightarrow> (error + unit) \<times> System option" where
  "destroySystem singleton =
     (case singleton of
        None \<Rightarrow>
          (Inl (InvalidRequestException
             ''CEGUI::System object is not created or was already destroyed.''), singleton)
      | Some sys \<Rightarrow> (Inr (), None))"

subsection \<open>Titlebar (Titlebar.cpp)\<close>

text \<open>
  The source of a cursor event; the handler only asks whether it is \<open>Left\<close>, the other
  values of the enumeration (declared outside src/) are one constructor here.
\<close>

datatype CursorInputSource = CursorInputSource_Left | CursorInputSource_Other

record CursorInputEventArgs =
  position :: vec2
  source :: CursorInputSource
  handled :: nat

text \<open>
  What \<open>dynamic_cast<FrameWindow*>(d_parent)\<close> tells apart: a parent that is a frame window,
  and a parent that is some other window.
\<close>

datatype ParentWindow = Parent_FrameWindow FrameWindow | Parent_Window

text \<open>
  The title bar with the parts of the GUI its press-hold handler reads and writes: its own
  fields, whether it is the active window and whether it holds the input capture, the
  cursor's constraint area (\<open>getGUIContext().getCursor()\<close>), the inner clipping rect of the
  grandparent (\<open>None\<close> when the parent has no parent) and the root container size.
\<close>

record Titlebar =
  d_dragging :: bool
  d_dragEnabled :: bool
  d_dragPoint :: vec2
  d_oldCursorArea :: Rectf
  d_parent :: "ParentWindow option"
  isActive :: bool
  isCapturedByThis :: bool
  constraintArea :: Rectf
  grandParentInnerRectClipper :: "Rectf option"
  getRootContainerSize :: Sizef

text \<open>
  The functions the handler calls that are defined outside src/, taken as parameters:
  the base class handler \<open>Window::onCursorPressHold\<close>, \<open>CoordConverter::screenToWindow\<close> for
  the frame window and for the title bar, and \<open>Rectf::getIntersection\<close>.
\<close>

record TitlebarExternals =
  Window_onCursorPressHold ::
    "CursorInputEventArgs \<Rightarrow> Titlebar \<Rightarrow> CursorInputEventArgs \<times> Titlebar"
  screenToWindow_FrameWindow :: "FrameWindow \<Rightarrow> vec2 \<Rightarrow> vec2"
  screenToWindow_Titlebar :: "Titlebar \<Rightarrow> vec2 \<Rightarrow> vec2"
  getIntersection :: "Rectf \<Rightarrow> Rectf \<Rightarrow> Rectf"

text \<open>
  Modelled from the spec: \<open>Window::captureInput\<close> is declared outside src/. The spec:
  "\<open>captureInput()\<close> succeeds only if the window is active"; on success the window holds the
  capture.
\<close>

definition captureInput :: "Titlebar \<Rightarrow> bool \<times> Titlebar" where
  "captureInput t = (if isActive t then (True, t\<lparr>isCapturedByThis := True\<rparr>) else (False, t))"

text \<open>The constructor \<open>Rectf(pos, size)\<close>: a rect from its top-left corner and its size.\<close>

definition Rectf_pos_size :: "vec2 \<Rightarrow> Sizef \<Rightarrow> Rectf" where
  "Rectf_pos_size pos sz =
     \<lparr>d_min = pos,
      d_max = \<lparr>vec2_x = vec2_x pos + d_width sz, vec2_y = vec2_y pos + d_height sz\<rparr>\<rparr>"

text \<open>
  \<open>Titlebar::onCursorPressHold(e)\<close>. After the base class handler, a press with the left
  source first asks the parent frame window, when there is one with sizing enabled, for
  the sizing border under the cursor and returns at once when there is one. Otherwise,
  with a parent and dragging enabled, it tries to capture the input and on success sets up
  the dragging state and the cursor's constraint area; the event is then counted as
  handled.
\<close>

definition onCursorPressHold ::
  "TitlebarExternals \<Rightarrow> CursorInputEventArgs \<Rightarrow> Titlebar \<Rightarrow> CursorInputEventArgs \<times> Titlebar" where
  "onCursorPressHold ext e0 t0 =
     (let (e, t) = Window_onCursorPressHold ext e0 t0 in
      if source e = CursorInputSource_Left then
        let frameWnd = (case d_parent t of Some (Parent_FrameWindow f) \<Rightarrow> Some f | _ \<Rightarrow> None) in
        if (case frameWnd of
              Some f \<Rightarrow>
                isSizingEnabled f \<and>
                getSizingBorderAtPoint f (screenToWindow_FrameWindow ext f (position e)) \<noteq> Invalid
            | None \<Rightarrow> False)
        then (e, t)
        else
          let t =
            (if d_parent t \<noteq> None \<and> d_dragEnabled t then
               let (captured, t) = captureInput t in
               if captured then
                 let t = t\<lparr>d_dragging := True\<rparr>;
                     t = t\<lparr>d_dragPoint := screenToWindow_Titlebar ext t (position e)\<rparr>;
                     t = t\<lparr>d_oldCursorArea := constraintArea t\<rparr>;
                     constrainArea =
                       (case grandParentInnerRectClipper t of
                          Some clipper \<Rightarrow> getIntersection ext clipper (d_oldCursorArea t)
                        | None \<Rightarrow>
                            getIntersection ext
                              (Rectf_pos_size \<lparr>vec2_x = 0, vec2_y = 0\<rparr> (getRootContainerSize t))
                              (d_oldCursorArea t))
                 in t\<lparr>constraintArea := constrainArea\<rparr>
               else t
             else t)
          in (e\<lparr>handled := handled e + 1\<rparr>, t)
      else (e, t))"

subsection \<open>Inventory item (InventoryItem.cpp)\<close>

text \<open>
  Modelled from the spec: the grid type of \<open>d_content\<close> is declared outside src/; the spec
  has "a width x height boolean occupancy grid" read through \<open>elementAtLocation(x, y)\<close>.
\<close>

record BoolArray2D =
  width :: int
  height :: int
  elementAtLocation :: "int \<Rightarrow> int \<Rightarrow> bool"

type_synonym argb_t = "32 word"
type_synonym Image = string
type_synonym WindowPtr = nat

text \<open>
  The render settings handed to \<open>Image::createRenderGeometry\<close>, of which the destination
  area and the colour given to \<open>ColourRect(colour)\<close> vary here; one piece of render geometry
  is recorded as the image with the settings it was created from.
\<close>

record ImageRenderSettings =
  d_destArea :: Rectf
  d_multiplyColours :: argb_t

type_synonym GeometryBuffer = "Image \<times> ImageRenderSettings"

text \<open>
  The item. \<open>d_dragging\<close> and \<open>d_dropTarget\<close> are the fields of the base class
  DragContainer; \<open>d_dropTarget\<close> is a window pointer, null when there is no target.
  \<open>getUnclippedOuterRect\<close>, \<open>squarePixelSize\<close> and \<open>userString_BlockImage\<close> hold what
  \<open>getUnclippedOuterRect().get()\<close>, \<open>squarePixelSize()\<close> and the user string "BlockImage" (if
  defined) give for the item; \<open>d_needsRedraw\<close> is set by \<open>invalidate()\<close> and
  \<open>d_geometryBuffers\<close> receives what \<open>appendGeometryBuffers\<close> appends.
\<close>

record InventoryItem =
  d_content :: BoolArray2D
  d_validDropTarget :: bool
  d_receiverLocationX :: int
  d_receiverLocationY :: int
  d_dragging :: bool
  d_dropTarget :: "WindowPtr option"
  getUnclippedOuterRect :: Rectf
  squarePixelSize :: Sizef
  userString_BlockImage :: "string option"
  d_needsRedraw :: bool
  d_geometryBuffers :: "GeometryBuffer list"

text \<open>
  The receiver's interface as the item uses it (InventoryReceiver is defined outside
  src/): its cell size, the grid cell of a pixel position on each axis, and whether an
  item fits at a grid cell. The store maps the windows that are receivers to their
  interface, so \<open>dynamic_cast<InventoryReceiver*>(p)\<close> is a lookup in it.
\<close>

record InventoryReceiver =
  receiver_squarePixelSize :: Sizef
  gridXLocationFromPixelPosition :: "float \<Rightarrow> int"
  gridYLocationFromPixelPosition :: "float \<Rightarrow> int"
  itemWillFitAtLocation :: "InventoryItem \<Rightarrow> int \<Rightarrow> int \<Rightarrow> bool"

type_synonym ReceiverStore = "WindowPtr \<rightharpoonup> InventoryReceiver"

definition dynamic_cast_InventoryReceiver ::
  "ReceiverStore \<Rightarrow> WindowPtr option \<Rightarrow> InventoryReceiver option" where
  "dynamic_cast_InventoryReceiver store p = (case p of None \<Rightarrow> None | Some a \<Rightarrow> store a)"

record DragDropEventArgs =
  window :: "WindowPtr option"

text \<open>
  The functions of the base class DragContainer and of the image manager that are defined
  outside src/, taken as parameters.
\<close>

record InventoryExternals =
  DragContainer_onMoved :: "InventoryItem \<Rightarrow> InventoryItem"
  DragContainer_onDragDropTargetChanged :: "DragDropEventArgs \<Rightarrow> InventoryItem \<Rightarrow> InventoryItem"
  Image_fromString :: "string \<Rightarrow> Image option"

text \<open>
  Modelled from the spec: \<open>Window::invalidate\<close> is declared outside src/; it marks the
  window's cached geometry as needing a redraw.
\<close>

definition invalidate :: "InventoryItem \<Rightarrow> InventoryItem" where
  "invalidate s = s\<lparr>d_needsRedraw := True\<rparr>"

definition currentDropTargetIsValid :: "InventoryItem \<Rightarrow> bool" where
  "currentDropTargetIsValid s = d_validDropTarget s"

text \<open>\<open>Rectf::offset(v)\<close> moves both corners by \<open>v\<close>.\<close>

definition Rectf_offset :: "vec2 \<Rightarrow> Rectf \<Rightarrow> Rectf" where
  "Rectf_offset v r =
     \<lparr>d_min = \<lparr>vec2_x = vec2_x (d_min r) + vec2_x v, vec2_y = vec2_y (d_min r) + vec2_y v\<rparr>,
      d_max = \<lparr>vec2_x = vec2_x (d_max r) + vec2_x v, vec2_y = vec2_y (d_max r) + vec2_y v\<rparr>\<rparr>"

text \<open>
  The grid cell of the receiver under the item: the item's outer rect moved by half a
  receiver cell, its left and top edge looked up in the receiver's grid.
\<close>

definition receiverCellUnderItem :: "InventoryReceiver \<Rightarrow> InventoryItem \<Rightarrow> int \<times> int" where
  "receiverCellUnderItem receiver s =
     (let square_size = receiver_squarePixelSize receiver;
          area = getUnclippedOuterRect s;
          area = Rectf_offset \<lparr>vec2_x = 0.5 * d_width square_size,
                               vec2_y = 0.5 * d_height square_size\<rparr> area;
          x = gridXLocationFromPixelPosition receiver (vec2_x (d_min area));
          y = gridYLocationFromPixelPosition receiver (vec2_y (d_min area))
      in (x, y))"

text \<open>\<open>InventoryItem::onMoved(e)\<close>.\<close>

definition onMoved :: "InventoryExternals \<Rightarrow> ReceiverStore \<Rightarrow> InventoryItem \<Rightarrow> InventoryItem" where
  "onMoved ext store s0 =
     (let s = invalidate s0;
          s = DragContainer_onMoved ext s
      in case dynamic_cast_InventoryReceiver store (d_dropTarget s) of
           Some receiver \<Rightarrow>
             let (x, y) = receiverCellUnderItem receiver s
             in s\<lparr>d_validDropTarget := itemWillFitAtLocation receiver s x y\<rparr>
         | None \<Rightarrow> s\<lparr>d_validDropTarget := False\<rparr>)"

text \<open>\<open>InventoryItem::onDragDropTargetChanged(e)\<close>.\<close>

definition onDragDropTargetChanged ::
  "InventoryExternals \<Rightarrow> ReceiverStore \<Rightarrow> DragDropEventArgs \<Rightarrow> InventoryItem \<Rightarrow> InventoryItem" where
  "onDragDropTargetChanged ext store e s0 =
     (let s = DragContainer_onDragDropTargetChanged ext e s0;
          s = s\<lparr>d_validDropTarget :=
                 (dynamic_cast_InventoryReceiver store (d_dropTarget s) \<noteq> None)\<rparr>
      in invalidate s)"

text \<open>
  The body of the two loops of \<open>populateGeometryBuffer\<close>: rows \<open>y\<close> from 0 up to the height,
  in each row the columns \<open>x\<close> from 0 up to the width, one piece of geometry for every solid
  cell.
\<close>

definition cellGeometry :: "Image \<Rightarrow> argb_t \<Rightarrow> Sizef \<Rightarrow> int \<Rightarrow> int \<Rightarrow> GeometryBuffer" where
  "cellGeometry img colour square_size x y =
     (img,
      \<lparr>d_destArea =
         Rectf_pos_size
           \<lparr>vec2_x = real_of_int x * d_width square_size + 1,
            vec2_y = real_of_int y * d_height square_size + 1\<rparr>
           \<lparr>d_width = d_width square_size - 2, d_height = d_height square_size - 2\<rparr>,
       d_multiplyColours = colour\<rparr>)"

definition contentGeometry :: "BoolArray2D \<Rightarrow> Image \<Rightarrow> argb_t \<Rightarrow> Sizef \<Rightarrow> GeometryBuffer list" where
  "contentGeometry content img colour square_size =
     concat (map (\<lambda>y.
       concat (map (\<lambda>x.
         if elementAtLocation content x y then [cellGeometry img colour square_size x y] else [])
         [0..width content - 1]))
       [0..height content - 1])"

text \<open>
  \<open>InventoryItem::populateGeometryBuffer()\<close>. Nothing is drawn without a "BlockImage" user
  string or when it names no image. The cell size is the receiver's while dragging over a
  valid target, where the source casts \<open>d_dropTarget\<close> to a receiver without a check: the
  result is \<open>None\<close> when the target is no receiver then (undefined behaviour in C++).
  The colour is red while dragging over an invalid target and green otherwise.
\<close>

definition populateGeometryBuffer ::
  "InventoryExternals \<Rightarrow> ReceiverStore \<Rightarrow> InventoryItem \<Rightarrow> InventoryItem option" where
  "populateGeometryBuffer ext store s =
     (case userString_BlockImage s of
        None \<Rightarrow> Some s
      | Some name \<Rightarrow>
          (case Image_fromString ext name of
             None \<Rightarrow> Some s
           | Some img \<Rightarrow>
               let colour = (if d_dragging s \<and> \<not> currentDropTargetIsValid s
                             then 0xFFFF0000 else 0xFF00FF00)
               in if d_dragging s \<and> currentDropTargetIsValid s then
                    (case dynamic_cast_InventoryReceiver store (d_dropTarget s) of
                       None \<Rightarrow> None
                     | Some receiver \<Rightarrow>
                         Some (s\<lparr>d_geometryBuffers := d_geometryBuffers s @
                           contentGeometry (d_content s) img colour
                             (receiver_squarePixelSize receiver)\<rparr>))
                  else
                    Some (s\<lparr>d_geometryBuffers := d_geometryBuffers s @
                      contentGeometry (d_content s) img colour (squarePixelSize s)\<rparr>)))"


subsection \<open>Example windows for the concrete cases\<close>

text \<open>
  A frame window with border thickness 8, outer sizing rect (0,0)-(200,100), pixel size
  100 x 100, minimum size 50 and maximum size 300 (absolute), area (10,10)-(110,110), sizing
  enabled; the frame flag and the horizontal alignment are left open.
\<close>

definition rectf :: "float \<Rightarrow> float \<Rightarrow> float \<Rightarrow> float \<Rightarrow> Rectf" where
  "rectf l t r b = \<lparr>d_min = \<lparr>vec2_x = l, vec2_y = t\<rparr>, d_max = \<lparr>vec2_x = r, vec2_y = b\<rparr>\<rparr>"

definition absdim :: "float \<Rightarrow> UDim" where
  "absdim v = \<lparr>d_scale = 0, d_offset = v\<rparr>"

definition example_frame :: "bool \<Rightarrow> HorizontalAlignment \<Rightarrow> FrameWindow" where
  "example_frame frameOn align =
     \<lparr>d_frameEnabled = frameOn, d_sizingEnabled = True, d_borderSize = 8,
      sizingRect = rectf 0 0 200 100,
      d_pixelSize = \<lparr>d_width = 100, d_height = 100\<rparr>,
      d_minSize = \<lparr>d_width = absdim 50, d_height = absdim 50\<rparr>,
      d_maxSize = \<lparr>d_width = absdim 300, d_height = absdim 300\<rparr>,
      d_area = \<lparr>d_min = \<lparr>d_x = absdim 10, d_y = absdim 10\<rparr>,
                d_max = \<lparr>d_x = absdim 110, d_y = absdim 110\<rparr>\<rparr>,
      d_horizontalAlignment = align,
      d_dragPoint = \<lparr>vec2_x = 98, vec2_y = 50\<rparr>,
      rootContainerSize = \<lparr>d_width = 800, d_height = 600\<rparr>,
      basePixelSize = \<lparr>d_width = 800, d_height = 600\<rparr>\<rparr>"

subsection \<open>Example renderer and environments for the concrete cases\<close>

text \<open>
  A renderer with Normal as the cached blend mode, buffer names 1 and 2, a solid capacity
  of 100 bytes, and no calls issued yet; a desktop OpenGL 3 environment and an OpenGL ES 1
  environment, both of a library with ABI version 1.
\<close>

definition example_renderer :: OpenGL3Renderer where
  "example_renderer =
     \<lparr>d_activeBlendMode = Normal, d_verticesSolidVBO = 1, d_verticesSolidVBOSize = 100,
      d_verticesTexturedVBO = 2, d_verticesTexturedVBOSize = 0, gl_calls = []\<rparr>"

definition desktop_gl3 :: Environment where
  "desktop_gl3 =
     \<lparr>isUsingOpenglEs = False, isUsingDesktopOpengl = True, verMajor = 3, CEGUI_VERSION_ABI = 1\<rparr>"

definition opengl_es1 :: Environment where
  "opengl_es1 =
     \<lparr>isUsingOpenglEs = True, isUsingDesktopOpengl = False, verMajor = 1, CEGUI_VERSION_ABI = 1\<rparr>"

subsection \<open>Example title bar, item and receiver for the concrete cases\<close>

text \<open>
  External functions for the examples: a base class handler that changes nothing, windows
  placed at the screen origin (so that screen and window coordinates agree) and the
  intersection of two overlapping rects.
\<close>

definition example_titlebar_externals :: TitlebarExternals where
  "example_titlebar_externals =
     \<lparr>Window_onCursorPressHold = (\<lambda>e t. (e, t)),
      screenToWindow_FrameWindow = (\<lambda>f p. p),
      screenToWindow_Titlebar = (\<lambda>t p. p),
      getIntersection = (\<lambda>a b.
        rectf (max (vec2_x (d_min a)) (vec2_x (d_min b))) (max (vec2_y (d_min a)) (vec2_y (d_min b)))
              (min (vec2_x (d_max a)) (vec2_x (d_max b))) (min (vec2_y (d_max a)) (vec2_y (d_max b))))\<rparr>"

text \<open>
  An active title bar, not dragging, dragging enabled, on the example frame window, with no
  grandparent, on an 800 x 600 root.
\<close>

definition example_titlebar :: Titlebar where
  "example_titlebar =
     \<lparr>Titlebar.d_dragging = False, d_dragEnabled = True,
      d_dragPoint = \<lparr>vec2_x = 0, vec2_y = 0\<rparr>,
      d_oldCursorArea = rectf 0 0 0 0,
      d_parent = Some (Parent_FrameWindow (example_frame True HorizontalAlignment_Left)),
      isActive = True, isCapturedByThis = False,
      constraintArea = rectf 0 0 800 600,
      grandParentInnerRectClipper = None,
      getRootContainerSize = \<lparr>d_width = 800, d_height = 600\<rparr>\<rparr>"

definition left_press_at :: "float \<Rightarrow> float \<Rightarrow> CursorInputEventArgs" where
  "left_press_at px py =
     \<lparr>position = \<lparr>vec2_x = px, vec2_y = py\<rparr>, source = CursorInputSource_Left, handled = 0\<rparr>"

definition solid_2x2 :: BoolArray2D where
  "solid_2x2 = \<lparr>width = 2, height = 2, elementAtLocation = (\<lambda>x y. True)\<rparr>"

text \<open>
  Modelled from the spec: InventoryReceiver is defined outside src/. The example is a
  receiver of 4 x 4 cells of 10 x 10 pixels at the origin with a list of occupied cells; an
  item fits at a cell when it lies inside the grid there and none of its solid cells falls
  on an occupied one ("free cells at the target location").
\<close>

definition example_receiver :: "(int \<times> int) list \<Rightarrow> InventoryReceiver" where
  "example_receiver occupied =
     \<lparr>receiver_squarePixelSize = \<lparr>d_width = 10, d_height = 10\<rparr>,
      gridXLocationFromPixelPosition = (\<lambda>px. \<lfloor>px / 10\<rfloor>),
      gridYLocationFromPixelPosition = (\<lambda>py. \<lfloor>py / 10\<rfloor>),
      itemWillFitAtLocation = (\<lambda>item x y.
        0 \<le> x \<and> 0 \<le> y \<and>
        x + width (d_content item) \<le> 4 \<and> y + height (d_content item) \<le> 4 \<and>
        list_all (\<lambda>(cx, cy).
          \<not> (x \<le> cx \<and> cx < x + width (d_content item) \<and>
             y \<le> cy \<and> cy < y + height (d_content item) \<and>
             elementAtLocation (d_content item) (cx - x) (cy - y))) occupied)\<rparr>"

text \<open>
  A dragged item with a fully solid 2 x 2 grid, whose outer rect starts at (5,5), over the
  window 7; half a receiver cell further, at (10,10), lies the receiver's cell (1,1).
\<close>

definition example_item :: InventoryItem where
  "example_item =
     \<lparr>d_content = solid_2x2, d_validDropTarget = False,
      d_receiverLocationX = -1, d_receiverLocationY = -1,
      d_dragging = True, d_dropTarget = Some 7,
      getUnclippedOuterRect = rectf 5 5 29 29,
      squarePixelSize = \<lparr>d_width = 12, d_height = 12\<rparr>,
      userString_BlockImage = Some ''BlockImage'',
      d_needsRedraw = False, d_geometryBuffers = []\<rparr>"

definition example_inventory_externals :: InventoryExternals where
  "example_inventory_externals =
     \<lparr>DragContainer_onMoved = (\<lambda>s. s),
      DragContainer_onDragDropTargetChanged = (\<lambda>e s. s\<lparr>d_dropTarget := window e\<rparr>),
      Image_fromString = (\<lambda>name. Some name)\<rparr>"

definition example_store :: "(int \<times> int) list \<Rightarrow> ReceiverStore" where
  "example_store occupied = [7 \<mapsto> example_receiver occupied]"


section \<open>Properties\<close>

subsection \<open>Effective visibility\<close>

text \<open>
  C1. For every window, \<open>isEffectiveVisible\<close> is the conjunction of the window's own visible
  flag and the parent's \<open>isEffectiveVisible\<close>; for a root window it is exactly the window's
  own flag. Unfolded along the parent chain, it is the window's flag together with the flag
  of every ancestor.
\<close>

theorem isEffectiveVisible_and_parent:
  "(Window.d_parent w = None \<longrightarrow> isEffectiveVisible w = d_visible w) \<and>
   (\<forall>p. Window.d_parent w = Some p \<longrightarrow>
      isEffectiveVisible w = (d_visible w \<and> isEffectiveVisible p)) \<and>
   isEffectiveVisible w = (d_visible w \<and> list_all d_visible (ancestors w))"
proof -
  have chain: "isEffectiveVisible v = (d_visible v \<and> list_all d_visible (ancestors v))" for v
    by (induction v rule: isEffectiveVisible.induct) (auto split: option.splits)
  have root: "Window.d_parent w = None \<longrightarrow> isEffectiveVisible w = d_visible w"
    by (cases w) simp
  have step: "\<forall>p. Window.d_parent w = Some p \<longrightarrow>
      isEffectiveVisible w = (d_visible w \<and> isEffectiveVisible p)"
    by (cases w) simp
  from root step chain show ?thesis by blast
qed

theorem isEffectiveVisible_and_parent_witness:
  "isEffectiveVisible (Window True None) \<and>
   \<not> isEffectiveVisible (Window True (Some (Window True (Some (Window False None))))) \<and>
   isEffectiveVisible (Window True (Some (Window True None)))"
  using isEffectiveVisible_and_parent [of "Window True None"]
    isEffectiveVisible_and_parent [of "Window True (Some (Window True (Some (Window False None))))"]
    isEffectiveVisible_and_parent [of "Window True (Some (Window True None))"]
  by simp

subsection \<open>Window update mode strings\<close>

text \<open>
  C4. \<open>fromString\<close> maps "Always" to Always, "Never" to Never, "Visible" to Visible and every
  other string (such as "garbage") to Visible; \<open>toString\<close> gives back exactly the literals
  "Always", "Never" and "Visible", so \<open>toString (fromString s) = s\<close> for the three literals.
\<close>

theorem WindowUpdateMode_roundtrip:
  "fromString ''Always'' = Always \<and>
   fromString ''Never'' = Never \<and>
   fromString ''Visible'' = Visible \<and>
   fromString ''garbage'' = Visible \<and>
   (s \<noteq> ''Always'' \<and> s \<noteq> ''Never'' \<longrightarrow> fromString s = Visible) \<and>
   toString Always = ''Always'' \<and>
   toString Never = ''Never'' \<and>
   toString Visible = ''Visible'' \<and>
   (s \<in> {''Always'', ''Never'', ''Visible''} \<longrightarrow> toString (fromString s) = s) \<and>
   fromString (toString m) = m"
  by (cases m) (auto simp: fromString_def toString_def)

theorem WindowUpdateMode_roundtrip_witness:
  "fromString ''always'' = Visible \<and> toString (fromString ''Never'') = ''Never'' \<and>
   fromString (toString Visible) = Visible"
  using WindowUpdateMode_roundtrip [of "''always''" Visible]
    WindowUpdateMode_roundtrip [of "''Never''" Visible]
  by simp

subsection \<open>Sizing border zones\<close>

lemmas sizing_border_defs =
  getSizingBorderAtPoint_def isPointInRectf_def isSizingEnabled_def isFrameEnabled_def inset_def

text \<open>
  C2, as stated, fails on a frame window whose frame is disabled: \<open>getSizingBorderAtPoint\<close>
  tests \<open>isSizingEnabled() && isFrameEnabled()\<close>, so with sizing enabled, border thickness 8
  and outer rect (0,0)-(200,100) but the frame switched off, the point (2,2) yields Invalid,
  not TopLeft.
\<close>

theorem getSizingBorderAtPoint_frame_disabled_counterexample:
  "d_sizingEnabled (example_frame False HorizontalAlignment_Left) \<and>
   d_borderSize (example_frame False HorizontalAlignment_Left) = 8 \<and>
   sizingRect (example_frame False HorizontalAlignment_Left) = rectf 0 0 200 100 \<and>
   getSizingBorderAtPoint (example_frame False HorizontalAlignment_Left)
     \<lparr>vec2_x = 2, vec2_y = 2\<rparr> = Invalid \<and>
   getSizingBorderAtPoint (example_frame False HorizontalAlignment_Left)
     \<lparr>vec2_x = 2, vec2_y = 2\<rparr> \<noteq> TopLeft"
  by (simp add: example_frame_def sizing_border_defs rectf_def)

text \<open>
  C2, amended. For a frame window with sizing enabled and the frame enabled, border thickness
  8 and outer sizing rect (0,0)-(200,100), \<open>getSizingBorderAtPoint\<close> returns TopLeft for
  (2,2), Top for (100,2), Invalid for (100,50) and Invalid for (250,50). For every frame
  window, a point outside the outer rect or inside the inner rect (the outer one inset by
  the border size) yields Invalid. Where the test is made, the corner zones are decided
  first, in the order top/left, top/right, bottom/left, bottom/right, and a single edge
  (top, bottom, left, right, in this order) is returned only when no corner condition holds.
\<close>

theorem getSizingBorderAtPoint_zones:
  "(d_sizingEnabled fw \<and> d_frameEnabled fw \<and> d_borderSize fw = 8 \<and>
      sizingRect fw = rectf 0 0 200 100 \<longrightarrow>
      getSizingBorderAtPoint fw \<lparr>vec2_x = 2, vec2_y = 2\<rparr> = TopLeft \<and>
      getSizingBorderAtPoint fw \<lparr>vec2_x = 100, vec2_y = 2\<rparr> = Top \<and>
      getSizingBorderAtPoint fw \<lparr>vec2_x = 100, vec2_y = 50\<rparr> = Invalid \<and>
      getSizingBorderAtPoint fw \<lparr>vec2_x = 250, vec2_y = 50\<rparr> = Invalid) \<and>
   (\<not> isPointInRectf (sizingRect fw) pt \<longrightarrow> getSizingBorderAtPoint fw pt = Invalid) \<and>
   (isPointInRectf (inset (d_borderSize fw) (sizingRect fw)) pt \<longrightarrow>
      getSizingBorderAtPoint fw pt = Invalid) \<and>
   (d_sizingEnabled fw \<and> d_frameEnabled fw \<and> isPointInRectf (sizingRect fw) pt \<longrightarrow>
      (let inner = inset (d_borderSize fw) (sizingRect fw);
           top = (vec2_y pt < vec2_y (d_min inner));
           bottom = (vec2_y pt \<ge> vec2_y (d_max inner));
           left = (vec2_x pt < vec2_x (d_min inner));
           right = (vec2_x pt \<ge> vec2_x (d_max inner));
           corner = (top \<and> left \<or> top \<and> right \<or> bottom \<and> left \<or> bottom \<and> right)
       in (top \<and> left \<longrightarrow> getSizingBorderAtPoint fw pt = TopLeft) \<and>
          (\<not> (top \<and> left) \<and> top \<and> right \<longrightarrow> getSizingBorderAtPoint fw pt = TopRight) \<and>
          (\<not> (top \<and> left) \<and> \<not> (top \<and> right) \<and> bottom \<and> left \<longrightarrow>
             getSizingBorderAtPoint fw pt = BottomLeft) \<and>
          (\<not> (top \<and> left) \<and> \<not> (top \<and> right) \<and> \<not> (bottom \<and> left) \<and> bottom \<and> right \<longrightarrow>
             getSizingBorderAtPoint fw pt = BottomRight) \<and>
          (getSizingBorderAtPoint fw pt \<in> {Top, Bottom, Left, Right} \<longrightarrow> \<not> corner) \<and>
          (\<not> corner \<and> top \<longrightarrow> getSizingBorderAtPoint fw pt = Top) \<and>
          (\<not> corner \<and> \<not> top \<and> bottom \<longrightarrow> getSizingBorderAtPoint fw pt = Bottom) \<and>
          (\<not> corner \<and> \<not> top \<and> \<not> bottom \<and> left \<longrightarrow> getSizingBorderAtPoint fw pt = Left) \<and>
          (\<not> corner \<and> \<not> top \<and> \<not> bottom \<and> \<not> left \<and> right \<longrightarrow>
             getSizingBorderAtPoint fw pt = Right)))"
proof -
  have concrete: "d_sizingEnabled fw \<and> d_frameEnabled fw \<and> d_borderSize fw = 8 \<and>
      sizingRect fw = rectf 0 0 200 100 \<longrightarrow>
      getSizingBorderAtPoint fw \<lparr>vec2_x = 2, vec2_y = 2\<rparr> = TopLeft \<and>
      getSizingBorderAtPoint fw \<lparr>vec2_x = 100, vec2_y = 2\<rparr> = Top \<and>
      getSizingBorderAtPoint fw \<lparr>vec2_x = 100, vec2_y = 50\<rparr> = Invalid \<and>
      getSizingBorderAtPoint fw \<lparr>vec2_x = 250, vec2_y = 50\<rparr> = Invalid"
    by (simp add: sizing_border_defs rectf_def)
  have outside: "\<not> isPointInRectf (sizingRect fw) pt \<longrightarrow> getSizingBorderAtPoint fw pt = Invalid"
    by (simp add: getSizingBorderAtPoint_def Let_def)
  have inside: "isPointInRectf (inset (d_borderSize fw) (sizingRect fw)) pt \<longrightarrow>
      getSizingBorderAtPoint fw pt = Invalid"
    by (auto simp: getSizingBorderAtPoint_def isPointInRectf_def Let_def)
  have order: "d_sizingEnabled fw \<and> d_frameEnabled fw \<and> isPointInRectf (sizingRect fw) pt \<longrightarrow>
      (let inner = inset (d_borderSize fw) (sizingRect fw);
           top = (vec2_y pt < vec2_y (d_min inner));
           bottom = (vec2_y pt \<ge> vec2_y (d_max inner));
           left = (vec2_x pt < vec2_x (d_min inner));
           right = (vec2_x pt \<ge> vec2_x (d_max inner));
           corner = (top \<and> left \<or> top \<and> right \<or> bottom \<and> left \<or> bottom \<and> right)
       in (top \<and> left \<longrightarrow> getSizingBorderAtPoint fw pt = TopLeft) \<and>
          (\<not> (top \<and> left) \<and> top \<and> right \<longrightarrow> getSizingBorderAtPoint fw pt = TopRight) \<and>
          (\<not> (top \<and> left) \<and> \<not> (top \<and> right) \<and> bottom \<and> left \<longrightarrow>
             getSizingBorderAtPoint fw pt = BottomLeft) \<and>
          (\<not> (top \<and> left) \<and> \<not> (top \<and> right) \<and> \<not> (bottom \<and> left) \<and> bottom \<and> right \<longrightarrow>
             getSizingBorderAtPoint fw pt = BottomRight) \<and>
          (getSizingBorderAtPoint fw pt \<in> {Top, Bottom, Left, Right} \<longrightarrow> \<not> corner) \<and>
          (\<not> corner \<and> top \<longrightarrow> getSizingBorderAtPoint fw pt = Top) \<and>
          (\<not> corner \<and> \<not> top \<and> bottom \<longrightarrow> getSizingBorderAtPoint fw pt = Bottom) \<and>
          (\<not> corner \<and> \<not> top \<and> \<not> bottom \<and> left \<longrightarrow> getSizingBorderAtPoint fw pt = Left) \<and>
          (\<not> corner \<and> \<not> top \<and> \<not> bottom \<and> \<not> left \<and> right \<longrightarrow>
             getSizingBorderAtPoint fw pt = Right))"
    by (simp add: getSizingBorderAtPoint_def isSizingEnabled_def isFrameEnabled_def Let_def)
  from concrete outside inside order show ?thesis by blast
qed

text \<open>
  The witness takes the example window with the frame enabled: the four points of the claim,
  and the point (195,97), which is on the bottom and on the right edge and so in the
  BottomRight corner.
\<close>

theorem getSizingBorderAtPoint_zones_witness:
  "d_sizingEnabled (example_frame True HorizontalAlignment_Left) \<and>
   d_frameEnabled (example_frame True HorizontalAlignment_Left) \<and>
   isPointInRectf (sizingRect (example_frame True HorizontalAlignment_Left))
     \<lparr>vec2_x = 195, vec2_y = 97\<rparr> \<and>
   getSizingBorderAtPoint (example_frame True HorizontalAlignment_Left)
     \<lparr>vec2_x = 2, vec2_y = 2\<rparr> = TopLeft \<and>
   getSizingBorderAtPoint (example_frame True HorizontalAlignment_Left)
     \<lparr>vec2_x = 100, vec2_y = 2\<rparr> = Top \<and>
   getSizingBorderAtPoint (example_frame True HorizontalAlignment_Left)
     \<lparr>vec2_x = 195, vec2_y = 97\<rparr> = BottomRight"
  using getSizingBorderAtPoint_zones [of "example_frame True HorizontalAlignment_Left"
      "\<lparr>vec2_x = 195, vec2_y = 97\<rparr>"]
  by (simp add: example_frame_def rectf_def isPointInRectf_def inset_def Let_def)

subsection \<open>Dragging the right edge\<close>

lemma width_add_max_x_offset:
  "d_width (URect_getSize (add_max_x_offset v a)) =
     (d_width (URect_getSize a))\<lparr>d_offset := d_offset (d_width (URect_getSize a)) + v\<rparr>"
  by (simp add: URect_getSize_def add_max_x_offset_def UDim_minus_def)

lemma width_add_min_x_offset:
  "d_width (URect_getSize (add_min_x_offset v a)) =
     (d_width (URect_getSize a))\<lparr>d_offset := d_offset (d_width (URect_getSize a)) - v\<rparr>"
  by (simp add: URect_getSize_def add_min_x_offset_def UDim_minus_def)

text \<open>
  C3. For a frame window whose minimum width resolves to 50 and whose maximum width resolves
  to 300, with current pixel width 100, \<open>moveRightEdge\<close> with delta +500 on the window's area
  (the caller, \<open>onCursorMove\<close>, passes a copy of \<open>d_area\<close>) leaves an area whose width resolves
  to exactly 300, not 600, whatever the horizontal alignment; unless the width was 300
  without limits already, the drag point moves by the realised 200.
\<close>

theorem moveRightEdge_clamps_to_max:
  assumes minw: "asAbsolute (d_width (d_minSize fw)) (d_width (rootContainerSize fw)) = 50"
    and maxw: "asAbsolute (d_width (d_maxSize fw)) (d_width (rootContainerSize fw)) = 300"
    and cur: "d_width (d_pixelSize fw) = 100"
    and area: "d_width (URect_getSize outArea) = d_width (getSize fw)"
  shows "asAbsolute (d_width (URect_getSize (fst (moveRightEdge 500 outArea fw))))
           (d_width (basePixelSize fw)) = 300 \<and>
         asAbsolute (d_width (URect_getSize (fst (moveRightEdge 500 outArea fw))))
           (d_width (basePixelSize fw)) \<noteq> 600 \<and>
         (asAbsolute (d_width (getSize fw)) (d_width (basePixelSize fw)) \<noteq> 300 \<longrightarrow>
            vec2_x (FrameWindow.d_dragPoint (snd (moveRightEdge 500 outArea fw))) =
              vec2_x (FrameWindow.d_dragPoint fw) + 200)"
proof -
  let ?u = "asAbsolute (d_width (getSize fw)) (d_width (basePixelSize fw))"
  have w: "asAbsolute (d_width (URect_getSize (fst (moveRightEdge 500 outArea fw))))
           (d_width (basePixelSize fw)) = 300"
  proof (cases "?u = 300")
    case True
    then show ?thesis using minw maxw cur area
      by (simp add: moveRightEdge_def Let_def)
  next
    case False
    then show ?thesis using minw maxw cur area
      by (cases "d_horizontalAlignment fw")
        (simp_all add: moveRightEdge_def Let_def width_add_max_x_offset width_add_min_x_offset
          asAbsolute_def)
  qed
  have d: "?u \<noteq> 300 \<longrightarrow>
            vec2_x (FrameWindow.d_dragPoint (snd (moveRightEdge 500 outArea fw))) =
              vec2_x (FrameWindow.d_dragPoint fw) + 200"
    using minw maxw cur by (simp add: moveRightEdge_def Let_def)
  from w d show ?thesis by simp
qed

text \<open>
  The witness: the example window, centre-aligned, area (10,10)-(110,110); the area
  becomes (110,10)-(410,110), 300 wide, and the drag point moves from 98 to 298.
\<close>

theorem moveRightEdge_clamps_to_max_witness:
  "asAbsolute (d_width (d_minSize (example_frame True HorizontalAlignment_Centre))) 800 = 50 \<and>
   asAbsolute (d_width (d_maxSize (example_frame True HorizontalAlignment_Centre))) 800 = 300 \<and>
   d_width (d_pixelSize (example_frame True HorizontalAlignment_Centre)) = 100 \<and>
   fst (moveRightEdge 500 (d_area (example_frame True HorizontalAlignment_Centre))
         (example_frame True HorizontalAlignment_Centre)) =
     \<lparr>d_min = \<lparr>d_x = absdim 110, d_y = absdim 10\<rparr>, d_max = \<lparr>d_x = absdim 410, d_y = absdim 110\<rparr>\<rparr> \<and>
   asAbsolute (d_width (URect_getSize
      (fst (moveRightEdge 500 (d_area (example_frame True HorizontalAlignment_Centre))
         (example_frame True HorizontalAlignment_Centre))))) 800 = 300 \<and>
   vec2_x (FrameWindow.d_dragPoint (snd (moveRightEdge 500 (d_area (example_frame True HorizontalAlignment_Centre))
         (example_frame True HorizontalAlignment_Centre)))) = 298"
  using moveRightEdge_clamps_to_max [of "example_frame True HorizontalAlignment_Centre"
      "d_area (example_frame True HorizontalAlignment_Centre)"]
  by (simp add: example_frame_def asAbsolute_def absdim_def getSize_def URect_getSize_def
      UDim_minus_def moveRightEdge_def add_max_x_offset_def add_min_x_offset_def Let_def)

subsection \<open>Blend mode setup\<close>

text \<open>
  C7. \<open>setupRenderingBlendMode mode force\<close> issues no call and leaves the whole renderer
  state unchanged when \<open>mode\<close> is the cached active blend mode and \<open>force\<close> is false. With
  \<open>force\<close> true it always issues exactly one blend call and caches the mode:
  \<open>blendFunc(ONE, ONE_MINUS_SRC_ALPHA)\<close> for RttPremultiplied and
  \<open>blendFuncSeparate(SRC_ALPHA, ONE_MINUS_SRC_ALPHA, ONE_MINUS_DST_ALPHA, ONE)\<close> for Normal.
\<close>

theorem setupRenderingBlendMode_cached_or_forced:
  "(d_activeBlendMode r = mode \<longrightarrow> setupRenderingBlendMode mode False r = r) \<and>
   setupRenderingBlendMode RttPremultiplied True r =
     r\<lparr>d_activeBlendMode := RttPremultiplied,
       gl_calls := gl_calls r @ [blendFunc GL_ONE GL_ONE_MINUS_SRC_ALPHA]\<rparr> \<and>
   setupRenderingBlendMode Normal True r =
     r\<lparr>d_activeBlendMode := Normal,
       gl_calls := gl_calls r @
         [blendFuncSeparate GL_SRC_ALPHA GL_ONE_MINUS_SRC_ALPHA GL_ONE_MINUS_DST_ALPHA GL_ONE]\<rparr> \<and>
   length (gl_calls (setupRenderingBlendMode mode True r)) = length (gl_calls r) + 1 \<and>
   d_activeBlendMode (setupRenderingBlendMode mode True r) = mode"
  by (cases mode) (simp_all add: setupRenderingBlendMode_def issue_def Let_def)

text \<open>
  The witness: on the example renderer, whose cached mode is Normal, an unforced Normal
  request changes nothing, and a forced one issues the separate blend function again.
\<close>

theorem setupRenderingBlendMode_cached_or_forced_witness:
  "d_activeBlendMode example_renderer = Normal \<and>
   setupRenderingBlendMode Normal False example_renderer = example_renderer \<and>
   gl_calls (setupRenderingBlendMode Normal True example_renderer) =
     [blendFuncSeparate GL_SRC_ALPHA GL_ONE_MINUS_SRC_ALPHA GL_ONE_MINUS_DST_ALPHA GL_ONE] \<and>
   gl_calls (setupRenderingBlendMode RttPremultiplied True example_renderer) =
     [blendFunc GL_ONE GL_ONE_MINUS_SRC_ALPHA]"
  using setupRenderingBlendMode_cached_or_forced [of example_renderer Normal]
  by (simp add: example_renderer_def)

subsection \<open>Big-buffer upload\<close>

lemma unat_byte_size:
  assumes "n < 2 ^ 32"
  shows "unat (of_nat n :: 32 word) = n"
  using assms by (simp only: unat_of_nat) simp

text \<open>
  C8, as stated, fails in two places. Empty vertex data does not exceed any capacity, yet
  \<open>uploadVertexData\<close> returns before any call, so the \<open>bufferSubData\<close> path is not used. And
  the capacity is a 32-bit \<open>GLuint\<close>: vertex data of \<open>2^30\<close> floats has a byte size of \<open>2^32\<close>,
  which exceeds the capacity of 100, and after the reallocation the recorded capacity is 0,
  neither the byte size nor a growth.
\<close>

theorem uploadVertexData_empty_and_wrap_counterexample:
  "uploadVertexData [] 1 100 example_renderer = (100, example_renderer) \<and>
   gl_calls (snd (uploadVertexData [] 1 100 example_renderer)) = [] \<and>
   length (replicate (2 ^ 30) (0 :: float)) * 4 > unat (100 :: GLuint) \<and>
   fst (uploadVertexData (replicate (2 ^ 30) 0) 1 100 example_renderer) = 0 \<and>
   unat (fst (uploadVertexData (replicate (2 ^ 30) 0) 1 100 example_renderer))
     \<noteq> length (replicate (2 ^ 30) (0 :: float)) * 4 \<and>
   fst (uploadVertexData (replicate (2 ^ 30) 0) 1 100 example_renderer) < 100"
  by (simp add: uploadVertexData_def Let_def example_renderer_def)

text \<open>
  C8, amended. For non-empty vertex data whose byte size is below \<open>2^32\<close>: when the byte
  size does not exceed the capacity, the buffer is bound and \<open>glBufferSubData\<close> updates it
  in place, and the capacity is unchanged; when the byte size exceeds the capacity, the
  buffer is bound and \<open>glBufferData\<close> reallocates it, and the capacity becomes exactly the
  byte size; so the capacity never shrinks. For empty vertex data nothing is issued and the
  capacity is unchanged.
\<close>

theorem uploadVertexData_capacity:
  "(vertex_data \<noteq> [] \<and> length vertex_data * 4 < 2 ^ 32 \<longrightarrow>
     (length vertex_data * 4 \<le> unat cap \<longrightarrow>
        uploadVertexData vertex_data vbo cap r =
          (cap, r\<lparr>gl_calls := gl_calls r @
             [bindBuffer GL_ARRAY_BUFFER vbo,
              glBufferSubData GL_ARRAY_BUFFER 0 (length vertex_data * 4) vertex_data]\<rparr>)) \<and>
     (length vertex_data * 4 > unat cap \<longrightarrow>
        unat (fst (uploadVertexData vertex_data vbo cap r)) = length vertex_data * 4 \<and>
        snd (uploadVertexData vertex_data vbo cap r) =
          r\<lparr>gl_calls := gl_calls r @
             [bindBuffer GL_ARRAY_BUFFER vbo,
              glBufferData GL_ARRAY_BUFFER (length vertex_data * 4) vertex_data GL_DYNAMIC_DRAW]\<rparr>) \<and>
     cap \<le> fst (uploadVertexData vertex_data vbo cap r)) \<and>
   (vertex_data = [] \<longrightarrow> uploadVertexData vertex_data vbo cap r = (cap, r))"
proof -
  let ?bytes = "length vertex_data * 4"
  have empty: "vertex_data = [] \<longrightarrow> uploadVertexData vertex_data vbo cap r = (cap, r)"
    by (simp add: uploadVertexData_def)
  have sub: "uploadVertexData vertex_data vbo cap r =
          (cap, r\<lparr>gl_calls := gl_calls r @
             [bindBuffer GL_ARRAY_BUFFER vbo,
              glBufferSubData GL_ARRAY_BUFFER 0 ?bytes vertex_data]\<rparr>)"
    if "vertex_data \<noteq> []" "?bytes \<le> unat cap"
    using that by (simp add: uploadVertexData_def Let_def issue_def)
  have realloc_cap: "fst (uploadVertexData vertex_data vbo cap r) = of_nat ?bytes"
    if "vertex_data \<noteq> []" "?bytes > unat cap"
    using that by (simp add: uploadVertexData_def Let_def)
  have realloc_calls: "snd (uploadVertexData vertex_data vbo cap r) =
          r\<lparr>gl_calls := gl_calls r @
             [bindBuffer GL_ARRAY_BUFFER vbo,
              glBufferData GL_ARRAY_BUFFER ?bytes vertex_data GL_DYNAMIC_DRAW]\<rparr>"
    if "vertex_data \<noteq> []" "?bytes > unat cap"
    using that by (simp add: uploadVertexData_def Let_def issue_def)
  have grow: "unat (fst (uploadVertexData vertex_data vbo cap r)) = ?bytes"
    if "vertex_data \<noteq> []" "?bytes > unat cap" "?bytes < 2 ^ 32"
    using realloc_cap [OF that(1,2)] unat_byte_size [OF that(3)] by simp
  have mono: "cap \<le> fst (uploadVertexData vertex_data vbo cap r)"
    if ne: "vertex_data \<noteq> []" and small: "?bytes < 2 ^ 32"
  proof (cases "?bytes \<le> unat cap")
    case True
    then show ?thesis using sub [OF ne] by simp
  next
    case False
    then have "unat cap < ?bytes" by simp
    with grow [OF ne _ small] show ?thesis by (simp add: word_le_nat_alt)
  qed
  from empty sub realloc_calls grow mono show ?thesis by blast
qed

text \<open>
  The witness: with a capacity of 100 bytes, 3 floats (12 bytes) are updated in place and 30
  floats (120 bytes) are reallocated, the capacity becoming 120.
\<close>

theorem uploadVertexData_capacity_witness:
  "uploadVertexData [1, 2, 3] 1 100 example_renderer =
     (100, example_renderer\<lparr>gl_calls :=
        [bindBuffer GL_ARRAY_BUFFER 1, glBufferSubData GL_ARRAY_BUFFER 0 12 [1, 2, 3]]\<rparr>) \<and>
   unat (fst (uploadVertexData (replicate 30 7) 1 100 example_renderer)) = 120 \<and>
   gl_calls (snd (uploadVertexData (replicate 30 7) 1 100 example_renderer)) =
     [bindBuffer GL_ARRAY_BUFFER 1,
      glBufferData GL_ARRAY_BUFFER 120 (replicate 30 7) GL_DYNAMIC_DRAW]"
  using uploadVertexData_capacity [of "[1, 2, 3]" 100 1 example_renderer]
    uploadVertexData_capacity [of "replicate 30 7" 100 1 example_renderer]
  by (simp add: example_renderer_def)

subsection \<open>System bootstrap\<close>

text \<open>
  C9, as stated, fails for the part that bootstrapSystem creates renderer, resource provider
  and System whenever no System exists: the function first runs the ABI version test, and
  the renderer's constructor refuses OpenGL ES below version 2. With no System, a caller
  compiled against ABI 0 of a library with ABI 1, and an OpenGL ES 1 context with the
  matching ABI, each get a failure and no System.
\<close>

theorem bootstrapSystem_guards_counterexample:
  "bootstrapSystem desktop_gl3 None 0 None = (Inl VersionTestFailure, None) \<and>
   bootstrapSystem opengl_es1 None 1 None =
     (Inl (RendererException
        ''Only version 2 and up of OpenGL ES is supported by this type of renderer.''), None)"
  by (simp add: bootstrapSystem_def performVersionTest_def create_def new_OpenGL3Renderer_def
      desktop_gl3_def opengl_es1_def)

text \<open>
  C9, amended. When the ABI version test passes: bootstrapSystem throws an InvalidRequest
  failure when a System singleton already exists, and leaves it as it is; when none exists
  and the OpenGL context is not OpenGL ES below version 2, it creates the renderer and a
  default resource provider, installs the System with both and returns the renderer; when
  none exists and the context is OpenGL ES below version 2, the renderer's constructor
  throws RendererException and no System is created. destroySystem throws an
  InvalidRequest failure when no System singleton exists, and otherwise leaves none.
\<close>

theorem bootstrapSystem_destroySystem_InvalidRequest:
  "(abi = CEGUI_VERSION_ABI env \<longrightarrow>
      (singleton \<noteq> None \<longrightarrow>
         bootstrapSystem env sz abi singleton =
           (Inl (InvalidRequestException ''CEGUI::System object is already initialised.''),
            singleton)) \<and>
      (singleton = None \<and> \<not> (isUsingOpenglEs env \<and> verMajor env < 2) \<longrightarrow>
         (\<exists>renderer.
            new_OpenGL3Renderer env sz = Inr renderer \<and>
            bootstrapSystem env sz abi singleton =
              (Inr renderer,
               Some \<lparr>getRenderer = renderer, getResourceProvider = DefaultResourceProvider\<rparr>))) \<and>
      (singleton = None \<and> isUsingOpenglEs env \<and> verMajor env < 2 \<longrightarrow>
         bootstrapSystem env sz abi singleton =
           (Inl (RendererException
              ''Only version 2 and up of OpenGL ES is supported by this type of renderer.''),
            None))) \<and>
   destroySystem None =
     (Inl (InvalidRequestException
        ''CEGUI::System object is not created or was already destroyed.''), None) \<and>
   destroySystem (Some sys) = (Inr (), None)"
  by (simp add: bootstrapSystem_def performVersionTest_def create_def new_OpenGL3Renderer_def
      destroySystem_def)

text \<open>
  The witness: on desktop OpenGL 3 with the matching ABI, a first bootstrap installs the
  System, a second one on the result fails with InvalidRequest, and destroying the System
  twice fails the second time; on OpenGL ES 1 with the matching ABI and no System, the
  bootstrap fails with RendererException and there is still no System.
\<close>

theorem bootstrapSystem_destroySystem_InvalidRequest_witness:
  "(\<exists>renderer.
      bootstrapSystem desktop_gl3 None 1 None =
        (Inr renderer,
         Some \<lparr>getRenderer = renderer, getResourceProvider = DefaultResourceProvider\<rparr>) \<and>
      display_size renderer = None) \<and>
   fst (bootstrapSystem desktop_gl3 None 1 (snd (bootstrapSystem desktop_gl3 None 1 None))) =
     Inl (InvalidRequestException ''CEGUI::System object is already initialised.'') \<and>
   fst (destroySystem (snd (destroySystem (snd (bootstrapSystem desktop_gl3 None 1 None))))) =
     Inl (InvalidRequestException
        ''CEGUI::System object is not created or was already destroyed.'') \<and>
   isUsingOpenglEs opengl_es1 \<and> verMajor opengl_es1 < 2 \<and>
   bootstrapSystem opengl_es1 None 1 None =
     (Inl (RendererException
        ''Only version 2 and up of OpenGL ES is supported by this type of renderer.''), None)"
  using bootstrapSystem_destroySystem_InvalidRequest [of 1 desktop_gl3 None None]
    bootstrapSystem_destroySystem_InvalidRequest
      [of 1 desktop_gl3 "snd (bootstrapSystem desktop_gl3 None 1 None)" None]
    bootstrapSystem_destroySystem_InvalidRequest [of 1 opengl_es1 None None]
  by (auto simp: desktop_gl3_def opengl_es1_def new_OpenGL3Renderer_def destroySystem_def
      split: option.splits)

subsection \<open>Title bar press-hold on a sizing border\<close>

text \<open>
  C6. When, after the base class processing, a press-hold with the left source lies on a
  point that the parent frame window (with sizing enabled) resolves to a sizing-border
  location other than Invalid, the title bar's handler does nothing more: the result is that
  of the base class handler. It takes no input capture, \<open>d_dragging\<close> keeps its value (false
  for a title bar that is not being dragged), the drag point, the stored old cursor area
  and the cursor's constraint area are unchanged, and the event is not counted as handled.
\<close>

theorem onCursorPressHold_defers_to_sizing:
  assumes base: "Window_onCursorPressHold ext e0 t0 = (e, t)"
    and left: "source e = CursorInputSource_Left"
    and parent: "Titlebar.d_parent t = Some (Parent_FrameWindow f)"
    and sizing: "isSizingEnabled f"
    and border:
      "getSizingBorderAtPoint f (screenToWindow_FrameWindow ext f (position e)) \<noteq> Invalid"
  shows "onCursorPressHold ext e0 t0 = (e, t) \<and>
         isCapturedByThis (snd (onCursorPressHold ext e0 t0)) = isCapturedByThis t \<and>
         Titlebar.d_dragging (snd (onCursorPressHold ext e0 t0)) = Titlebar.d_dragging t \<and>
         Titlebar.d_dragPoint (snd (onCursorPressHold ext e0 t0)) = Titlebar.d_dragPoint t \<and>
         constraintArea (snd (onCursorPressHold ext e0 t0)) = constraintArea t \<and>
         d_oldCursorArea (snd (onCursorPressHold ext e0 t0)) = d_oldCursorArea t \<and>
         handled (fst (onCursorPressHold ext e0 t0)) = handled e"
proof -
  have "onCursorPressHold ext e0 t0 = (e, t)"
    using assms by (simp add: onCursorPressHold_def Let_def)
  then show ?thesis by simp
qed

text \<open>
  The witness: on the example title bar, a left press at (2,2), the frame's TopLeft corner,
  leaves event and title bar as they were.
\<close>

theorem onCursorPressHold_defers_to_sizing_witness:
  "getSizingBorderAtPoint (example_frame True HorizontalAlignment_Left)
     (position (left_press_at 2 2)) = TopLeft \<and>
   onCursorPressHold example_titlebar_externals (left_press_at 2 2) example_titlebar =
     (left_press_at 2 2, example_titlebar) \<and>
   \<not> Titlebar.d_dragging
       (snd (onCursorPressHold example_titlebar_externals (left_press_at 2 2) example_titlebar)) \<and>
   \<not> isCapturedByThis
       (snd (onCursorPressHold example_titlebar_externals (left_press_at 2 2) example_titlebar))"
  using onCursorPressHold_defers_to_sizing
    [of example_titlebar_externals "left_press_at 2 2" example_titlebar
      "left_press_at 2 2" example_titlebar "example_frame True HorizontalAlignment_Left"]
  by (simp add: example_titlebar_externals_def example_titlebar_def left_press_at_def
      example_frame_def sizing_border_defs rectf_def)

text \<open>
  For comparison, a left press at (100,50), which is on no sizing border, does start the
  drag on the same title bar: the capture is taken and the drag point recorded.
\<close>

lemma onCursorPressHold_starts_drag_example:
  "Titlebar.d_dragging
     (snd (onCursorPressHold example_titlebar_externals (left_press_at 100 50) example_titlebar)) \<and>
   isCapturedByThis
     (snd (onCursorPressHold example_titlebar_externals (left_press_at 100 50) example_titlebar)) \<and>
   Titlebar.d_dragPoint
     (snd (onCursorPressHold example_titlebar_externals (left_press_at 100 50) example_titlebar)) =
     \<lparr>vec2_x = 100, vec2_y = 50\<rparr> \<and>
   handled
     (fst (onCursorPressHold example_titlebar_externals (left_press_at 100 50) example_titlebar)) = 1"
  by (simp add: onCursorPressHold_def example_titlebar_externals_def example_titlebar_def
      left_press_at_def example_frame_def sizing_border_defs rectf_def captureInput_def Let_def)

subsection \<open>Inventory item: drop validity and tint\<close>

lemma contentGeometry_solid_2x2:
  assumes "width content = 2" "height content = 2"
    and "elementAtLocation content 0 0" "elementAtLocation content 1 0"
    and "elementAtLocation content 0 1" "elementAtLocation content 1 1"
  shows "contentGeometry content img colour sq =
    [cellGeometry img colour sq 0 0, cellGeometry img colour sq 1 0,
     cellGeometry img colour sq 0 1, cellGeometry img colour sq 1 1]"
  using assms by (simp add: contentGeometry_def upto_rec1)

lemma contentGeometry_colour:
  "g \<in> set (contentGeometry content img colour sq) \<Longrightarrow> d_multiplyColours (snd g) = colour"
  by (auto simp: contentGeometry_def cellGeometry_def split: if_splits)

lemma populateGeometryBuffer_colour:
  assumes "\<not> (d_dragging m \<and> currentDropTargetIsValid m) \<or>
           dynamic_cast_InventoryReceiver store (d_dropTarget m) \<noteq> None"
  shows "\<exists>added.
     populateGeometryBuffer ext store m =
       Some (m\<lparr>d_geometryBuffers := d_geometryBuffers m @ added\<rparr>) \<and>
     (\<forall>g \<in> set added. d_multiplyColours (snd g) =
        (if d_dragging m \<and> \<not> currentDropTargetIsValid m then 0xFFFF0000 else 0xFF00FF00))"
proof -
  let ?c = "if d_dragging m \<and> \<not> currentDropTargetIsValid m then 0xFFFF0000 else 0xFF00FF00 :: argb_t"
  show ?thesis
  proof (cases "userString_BlockImage m")
    case None
    then have p: "populateGeometryBuffer ext store m = Some m"
      by (simp add: populateGeometryBuffer_def)
    show ?thesis by (rule exI [where x = "[]"]) (simp add: p)
  next
    case (Some name)
    note name = this
    show ?thesis
    proof (cases "Image_fromString ext name")
      case None
      with name have p: "populateGeometryBuffer ext store m = Some m"
        by (simp add: populateGeometryBuffer_def)
      show ?thesis by (rule exI [where x = "[]"]) (simp add: p)
    next
      case (Some img)
      note img = this
      show ?thesis
      proof (cases "d_dragging m \<and> currentDropTargetIsValid m")
        case True
        with assms obtain receiver where
          r: "dynamic_cast_InventoryReceiver store (d_dropTarget m) = Some receiver"
          by blast
        from name img True r have p: "populateGeometryBuffer ext store m =
            Some (m\<lparr>d_geometryBuffers := d_geometryBuffers m @
              contentGeometry (d_content m) img ?c (receiver_squarePixelSize receiver)\<rparr>)"
          by (simp add: populateGeometryBuffer_def Let_def)
        show ?thesis
          by (rule exI [where x = "contentGeometry (d_content m) img ?c (receiver_squarePixelSize receiver)"])
            (simp add: p contentGeometry_colour)
      next
        case False
        with name img have p: "populateGeometryBuffer ext store m =
            Some (m\<lparr>d_geometryBuffers := d_geometryBuffers m @
              contentGeometry (d_content m) img ?c (squarePixelSize m)\<rparr>)"
          by (simp add: populateGeometryBuffer_def Let_def)
        show ?thesis
          by (rule exI [where x = "contentGeometry (d_content m) img ?c (squarePixelSize m)"])
            (simp add: p contentGeometry_colour)
      qed
    qed
  qed
qed

text \<open>
  C5. An item with a fully solid 2 x 2 grid is over an InventoryReceiver (its drop target
  after the base class processing of the move). After \<open>onMoved\<close>,
  \<open>currentDropTargetIsValid\<close> is what the receiver's \<open>itemWillFitAtLocation\<close> reports for the
  grid cell under the item's position offset by half a receiver cell. When the item fits,
  the flag is true and all geometry that \<open>populateGeometryBuffer\<close> adds has the opaque green
  tint 0xFF00FF00; when it does not fit (it overlaps an occupied cell) while \<open>d_dragging\<close> is
  true, the flag is false and all added geometry has the opaque red tint 0xFFFF0000. With a
  block image available, the added geometry is one rect for each of the four cells.
\<close>

theorem onMoved_drop_validity_and_tint:
  assumes base: "DragContainer_onMoved ext (invalidate s0) = s"
    and target: "dynamic_cast_InventoryReceiver store (d_dropTarget s) = Some receiver"
    and cell: "receiverCellUnderItem receiver s = (x, y)"
    and grid: "width (d_content s) = 2" "height (d_content s) = 2"
    and solid: "\<forall>cx \<in> {0, 1}. \<forall>cy \<in> {0, 1}. elementAtLocation (d_content s) cx cy"
    and moved: "m = onMoved ext store s0"
  shows
    "currentDropTargetIsValid m = itemWillFitAtLocation receiver s x y \<and>
     (itemWillFitAtLocation receiver s x y \<longrightarrow>
        currentDropTargetIsValid m \<and>
        (\<exists>added.
           populateGeometryBuffer ext store m =
             Some (m\<lparr>d_geometryBuffers := d_geometryBuffers m @ added\<rparr>) \<and>
           (\<forall>g \<in> set added. d_multiplyColours (snd g) = 0xFF00FF00))) \<and>
     (\<not> itemWillFitAtLocation receiver s x y \<and> d_dragging s \<longrightarrow>
        \<not> currentDropTargetIsValid m \<and>
        (\<exists>added.
           populateGeometryBuffer ext store m =
             Some (m\<lparr>d_geometryBuffers := d_geometryBuffers m @ added\<rparr>) \<and>
           (\<forall>g \<in> set added. d_multiplyColours (snd g) = 0xFFFF0000))) \<and>
     (\<forall>name img.
        userString_BlockImage s = Some name \<and> Image_fromString ext name = Some img \<longrightarrow>
        (itemWillFitAtLocation receiver s x y \<longrightarrow>
           populateGeometryBuffer ext store m =
             Some (m\<lparr>d_geometryBuffers := d_geometryBuffers m @
               (let sq = (if d_dragging s then receiver_squarePixelSize receiver
                          else squarePixelSize s)
                in [cellGeometry img 0xFF00FF00 sq 0 0, cellGeometry img 0xFF00FF00 sq 1 0,
                    cellGeometry img 0xFF00FF00 sq 0 1, cellGeometry img 0xFF00FF00 sq 1 1])\<rparr>)) \<and>
        (\<not> itemWillFitAtLocation receiver s x y \<and> d_dragging s \<longrightarrow>
           populateGeometryBuffer ext store m =
             Some (m\<lparr>d_geometryBuffers := d_geometryBuffers m @
               (let sq = squarePixelSize s
                in [cellGeometry img 0xFFFF0000 sq 0 0, cellGeometry img 0xFFFF0000 sq 1 0,
                    cellGeometry img 0xFFFF0000 sq 0 1, cellGeometry img 0xFFFF0000 sq 1 1])\<rparr>)))"
proof -
  let ?fits = "itemWillFitAtLocation receiver s x y"
  have m: "m = s\<lparr>d_validDropTarget := ?fits\<rparr>"
    using base target cell moved by (simp add: onMoved_def Let_def)
  have valid: "currentDropTargetIsValid m = ?fits"
    by (simp add: m currentDropTargetIsValid_def)
  have cast: "dynamic_cast_InventoryReceiver store (d_dropTarget m) = Some receiver"
    using target by (simp add: m)
  have drag: "d_dragging m = d_dragging s"
    by (simp add: m)
  have four: "contentGeometry (d_content s) img colour sq =
      [cellGeometry img colour sq 0 0, cellGeometry img colour sq 1 0,
       cellGeometry img colour sq 0 1, cellGeometry img colour sq 1 1]" for img colour sq
    using grid solid by (intro contentGeometry_solid_2x2) simp_all
  from cast have ok: "\<not> (d_dragging m \<and> currentDropTargetIsValid m) \<or>
      dynamic_cast_InventoryReceiver store (d_dropTarget m) \<noteq> None"
    by simp
  have tint_green:
    "(if d_dragging m \<and> \<not> currentDropTargetIsValid m then 0xFFFF0000 else 0xFF00FF00 :: argb_t)
       = 0xFF00FF00" if "?fits"
    using that valid by simp
  have tint_red:
    "(if d_dragging m \<and> \<not> currentDropTargetIsValid m then 0xFFFF0000 else 0xFF00FF00 :: argb_t)
       = 0xFFFF0000" if "\<not> ?fits" "d_dragging s"
    using that valid drag by simp
  have green: "?fits \<longrightarrow>
      (\<exists>added.
         populateGeometryBuffer ext store m =
           Some (m\<lparr>d_geometryBuffers := d_geometryBuffers m @ added\<rparr>) \<and>
         (\<forall>g \<in> set added. d_multiplyColours (snd g) = 0xFF00FF00))"
  proof
    assume f: "?fits"
    from populateGeometryBuffer_colour [OF ok, of ext]
    show "\<exists>added.
         populateGeometryBuffer ext store m =
           Some (m\<lparr>d_geometryBuffers := d_geometryBuffers m @ added\<rparr>) \<and>
         (\<forall>g \<in> set added. d_multiplyColours (snd g) = 0xFF00FF00)"
      unfolding tint_green [OF f] .
  qed
  have red: "\<not> ?fits \<and> d_dragging s \<longrightarrow>
      (\<exists>added.
         populateGeometryBuffer ext store m =
           Some (m\<lparr>d_geometryBuffers := d_geometryBuffers m @ added\<rparr>) \<and>
         (\<forall>g \<in> set added. d_multiplyColours (snd g) = 0xFFFF0000))"
  proof
    assume "\<not> ?fits \<and> d_dragging s"
    then have nf: "\<not> ?fits" and d: "d_dragging s" by simp_all
    from populateGeometryBuffer_colour [OF ok, of ext]
    show "\<exists>added.
         populateGeometryBuffer ext store m =
           Some (m\<lparr>d_geometryBuffers := d_geometryBuffers m @ added\<rparr>) \<and>
         (\<forall>g \<in> set added. d_multiplyColours (snd g) = 0xFFFF0000)"
      unfolding tint_red [OF nf d] .
  qed
  have exact_green: "populateGeometryBuffer ext store m =
       Some (m\<lparr>d_geometryBuffers := d_geometryBuffers m @
         (let sq = (if d_dragging s then receiver_squarePixelSize receiver
                    else squarePixelSize s)
          in [cellGeometry img 0xFF00FF00 sq 0 0, cellGeometry img 0xFF00FF00 sq 1 0,
              cellGeometry img 0xFF00FF00 sq 0 1, cellGeometry img 0xFF00FF00 sq 1 1])\<rparr>)"
    if "userString_BlockImage s = Some name" "Image_fromString ext name = Some img" "?fits"
    for name img
    using that target
    by (simp add: m populateGeometryBuffer_def currentDropTargetIsValid_def Let_def four)
  have exact_red: "populateGeometryBuffer ext store m =
       Some (m\<lparr>d_geometryBuffers := d_geometryBuffers m @
         (let sq = squarePixelSize s
          in [cellGeometry img 0xFFFF0000 sq 0 0, cellGeometry img 0xFFFF0000 sq 1 0,
              cellGeometry img 0xFFFF0000 sq 0 1, cellGeometry img 0xFFFF0000 sq 1 1])\<rparr>)"
    if "userString_BlockImage s = Some name" "Image_fromString ext name = Some img"
      "\<not> ?fits" "d_dragging s"
    for name img
    using that target
    by (simp add: m populateGeometryBuffer_def currentDropTargetIsValid_def Let_def four)
  have exact: "\<forall>name img.
        userString_BlockImage s = Some name \<and> Image_fromString ext name = Some img \<longrightarrow>
        (itemWillFitAtLocation receiver s x y \<longrightarrow>
           populateGeometryBuffer ext store m =
             Some (m\<lparr>d_geometryBuffers := d_geometryBuffers m @
               (let sq = (if d_dragging s then receiver_squarePixelSize receiver
                          else squarePixelSize s)
                in [cellGeometry img 0xFF00FF00 sq 0 0, cellGeometry img 0xFF00FF00 sq 1 0,
                    cellGeometry img 0xFF00FF00 sq 0 1, cellGeometry img 0xFF00FF00 sq 1 1])\<rparr>)) \<and>
        (\<not> itemWillFitAtLocation receiver s x y \<and> d_dragging s \<longrightarrow>
           populateGeometryBuffer ext store m =
             Some (m\<lparr>d_geometryBuffers := d_geometryBuffers m @
               (let sq = squarePixelSize s
                in [cellGeometry img 0xFFFF0000 sq 0 0, cellGeometry img 0xFFFF0000 sq 1 0,
                    cellGeometry img 0xFFFF0000 sq 0 1, cellGeometry img 0xFFFF0000 sq 1 1])\<rparr>))"
  proof (intro allI impI conjI)
    fix name img
    assume a: "userString_BlockImage s = Some name \<and> Image_fromString ext name = Some img"
      and f: "?fits"
    from a f show "populateGeometryBuffer ext store m =
             Some (m\<lparr>d_geometryBuffers := d_geometryBuffers m @
               (let sq = (if d_dragging s then receiver_squarePixelSize receiver
                          else squarePixelSize s)
                in [cellGeometry img 0xFF00FF00 sq 0 0, cellGeometry img 0xFF00FF00 sq 1 0,
                    cellGeometry img 0xFF00FF00 sq 0 1, cellGeometry img 0xFF00FF00 sq 1 1])\<rparr>)"
      by (intro exact_green [of name img]) simp_all
  next
    fix name img
    assume a: "userString_BlockImage s = Some name \<and> Image_fromString ext name = Some img"
      and nf: "\<not> ?fits \<and> d_dragging s"
    from a nf show "populateGeometryBuffer ext store m =
             Some (m\<lparr>d_geometryBuffers := d_geometryBuffers m @
               (let sq = squarePixelSize s
                in [cellGeometry img 0xFFFF0000 sq 0 0, cellGeometry img 0xFFFF0000 sq 1 0,
                    cellGeometry img 0xFFFF0000 sq 0 1, cellGeometry img 0xFFFF0000 sq 1 1])\<rparr>)"
      by (intro exact_red [of name img]) simp_all
  qed
  have g2: "?fits \<longrightarrow> currentDropTargetIsValid m \<and>
      (\<exists>added.
         populateGeometryBuffer ext store m =
           Some (m\<lparr>d_geometryBuffers := d_geometryBuffers m @ added\<rparr>) \<and>
         (\<forall>g \<in> set added. d_multiplyColours (snd g) = 0xFF00FF00))"
  proof
    assume f: "?fits"
    with valid have "currentDropTargetIsValid m" by simp
    moreover from green f have "\<exists>added.
         populateGeometryBuffer ext store m =
           Some (m\<lparr>d_geometryBuffers := d_geometryBuffers m @ added\<rparr>) \<and>
         (\<forall>g \<in> set added. d_multiplyColours (snd g) = 0xFF00FF00)" by (rule mp)
    ultimately show "currentDropTargetIsValid m \<and>
      (\<exists>added.
         populateGeometryBuffer ext store m =
           Some (m\<lparr>d_geometryBuffers := d_geometryBuffers m @ added\<rparr>) \<and>
         (\<forall>g \<in> set added. d_multiplyColours (snd g) = 0xFF00FF00))" by (rule conjI)
  qed
  have r2: "\<not> ?fits \<and> d_dragging s \<longrightarrow> \<not> currentDropTargetIsValid m \<and>
      (\<exists>added.
         populateGeometryBuffer ext store m =
           Some (m\<lparr>d_geometryBuffers := d_geometryBuffers m @ added\<rparr>) \<and>
         (\<forall>g \<in> set added. d_multiplyColours (snd g) = 0xFFFF0000))"
  proof
    assume a: "\<not> ?fits \<and> d_dragging s"
    with valid have "\<not> currentDropTargetIsValid m" by simp
    moreover from red a have "\<exists>added.
         populateGeometryBuffer ext store m =
           Some (m\<lparr>d_geometryBuffers := d_geometryBuffers m @ added\<rparr>) \<and>
         (\<forall>g \<in> set added. d_multiplyColours (snd g) = 0xFFFF0000)" by (rule mp)
    ultimately show "\<not> currentDropTargetIsValid m \<and>
      (\<exists>added.
         populateGeometryBuffer ext store m =
           Some (m\<lparr>d_geometryBuffers := d_geometryBuffers m @ added\<rparr>) \<and>
         (\<forall>g \<in> set added. d_multiplyColours (snd g) = 0xFFFF0000))" by (rule conjI)
  qed
  show ?thesis
    by (intro conjI) (rule valid, rule g2, rule r2, rule exact)
qed

text \<open>
  The witness: the example item, dragged over the example receiver, lies over the
  receiver's cell (1,1) and covers the cells (1,1) to (2,2). With cell (3,3) occupied it
  fits: the target is valid and four green rects of the receiver's cell size are added.
  With cell (2,2) occupied it overlaps: the target is not valid and four red rects of the
  item's own cell size are added.
\<close>

theorem onMoved_drop_validity_and_tint_witness:
  "receiverCellUnderItem (example_receiver [(3, 3)]) (invalidate example_item) = (1, 1) \<and>
   itemWillFitAtLocation (example_receiver [(3, 3)]) (invalidate example_item) 1 1 \<and>
   currentDropTargetIsValid
     (onMoved example_inventory_externals (example_store [(3, 3)]) example_item) \<and>
   map_option d_geometryBuffers
     (populateGeometryBuffer example_inventory_externals (example_store [(3, 3)])
        (onMoved example_inventory_externals (example_store [(3, 3)]) example_item)) =
     Some [cellGeometry ''BlockImage'' 0xFF00FF00 \<lparr>d_width = 10, d_height = 10\<rparr> 0 0,
           cellGeometry ''BlockImage'' 0xFF00FF00 \<lparr>d_width = 10, d_height = 10\<rparr> 1 0,
           cellGeometry ''BlockImage'' 0xFF00FF00 \<lparr>d_width = 10, d_height = 10\<rparr> 0 1,
           cellGeometry ''BlockImage'' 0xFF00FF00 \<lparr>d_width = 10, d_height = 10\<rparr> 1 1] \<and>
   \<not> itemWillFitAtLocation (example_receiver [(2, 2)]) (invalidate example_item) 1 1 \<and>
   \<not> currentDropTargetIsValid
     (onMoved example_inventory_externals (example_store [(2, 2)]) example_item) \<and>
   map_option d_geometryBuffers
     (populateGeometryBuffer example_inventory_externals (example_store [(2, 2)])
        (onMoved example_inventory_externals (example_store [(2, 2)]) example_item)) =
     Some [cellGeometry ''BlockImage'' 0xFFFF0000 \<lparr>d_width = 12, d_height = 12\<rparr> 0 0,
           cellGeometry ''BlockImage'' 0xFFFF0000 \<lparr>d_width = 12, d_height = 12\<rparr> 1 0,
           cellGeometry ''BlockImage'' 0xFFFF0000 \<lparr>d_width = 12, d_height = 12\<rparr> 0 1,
           cellGeometry ''BlockImage'' 0xFFFF0000 \<lparr>d_width = 12, d_height = 12\<rparr> 1 1]"
proof -
  have cell: "receiverCellUnderItem (example_receiver occ) (invalidate example_item) = (1, 1)"
    for occ
    by (simp add: receiverCellUnderItem_def example_receiver_def example_item_def invalidate_def
        Rectf_offset_def rectf_def Let_def)
  have base: "DragContainer_onMoved example_inventory_externals (invalidate example_item) =
      invalidate example_item"
    by (simp add: example_inventory_externals_def)
  have target: "dynamic_cast_InventoryReceiver (example_store occ)
      (d_dropTarget (invalidate example_item)) = Some (example_receiver occ)" for occ
    by (simp add: dynamic_cast_InventoryReceiver_def example_store_def example_item_def
        invalidate_def)
  have grid: "width (d_content (invalidate example_item)) = 2"
    "height (d_content (invalidate example_item)) = 2"
    "\<forall>cx \<in> {0, 1}. \<forall>cy \<in> {0, 1}. elementAtLocation (d_content (invalidate example_item)) cx cy"
    by (simp_all add: example_item_def invalidate_def solid_2x2_def)
  have fits: "itemWillFitAtLocation (example_receiver [(3, 3)]) (invalidate example_item) 1 1"
    by (simp add: example_receiver_def example_item_def invalidate_def solid_2x2_def)
  have overlaps:
    "\<not> itemWillFitAtLocation (example_receiver [(2, 2)]) (invalidate example_item) 1 1"
    by (simp add: example_receiver_def example_item_def invalidate_def solid_2x2_def)
  have img: "userString_BlockImage (invalidate example_item) = Some ''BlockImage'' \<and>
      Image_fromString example_inventory_externals ''BlockImage'' = Some ''BlockImage''"
    by (simp add: example_item_def invalidate_def example_inventory_externals_def)
  have drag: "d_dragging (invalidate example_item)"
    by (simp add: example_item_def invalidate_def)
  have sizes: "receiver_squarePixelSize (example_receiver occ) = \<lparr>d_width = 10, d_height = 10\<rparr>"
    "squarePixelSize (invalidate example_item) = \<lparr>d_width = 12, d_height = 12\<rparr>" for occ
    by (simp_all add: example_receiver_def example_item_def invalidate_def)
  note free = onMoved_drop_validity_and_tint
    [OF base target cell grid refl, where occ2 = "[(3, 3)]"]
  note taken = onMoved_drop_validity_and_tint
    [OF base target cell grid refl, where occ2 = "[(2, 2)]"]
  have geo: "d_geometryBuffers
      (onMoved example_inventory_externals (example_store occ) example_item) = []" for occ
    by (simp add: onMoved_def Let_def example_inventory_externals_def example_item_def
        invalidate_def split: option.splits prod.splits)
  note valid_free = free [THEN conjunct1]
  note drawn_free = free [THEN conjunct2, THEN conjunct2, THEN conjunct2, THEN spec, THEN spec,
      THEN mp, OF img, THEN conjunct1, THEN mp, OF fits]
  note valid_taken = taken [THEN conjunct1]
  note drawn_taken = taken [THEN conjunct2, THEN conjunct2, THEN conjunct2, THEN spec, THEN spec,
      THEN mp, OF img, THEN conjunct2, THEN mp, OF conjI [OF overlaps drag]]
  have g: "currentDropTargetIsValid
     (onMoved example_inventory_externals (example_store [(3, 3)]) example_item) \<and>
   map_option d_geometryBuffers
     (populateGeometryBuffer example_inventory_externals (example_store [(3, 3)])
        (onMoved example_inventory_externals (example_store [(3, 3)]) example_item)) =
     Some [cellGeometry ''BlockImage'' 0xFF00FF00 \<lparr>d_width = 10, d_height = 10\<rparr> 0 0,
           cellGeometry ''BlockImage'' 0xFF00FF00 \<lparr>d_width = 10, d_height = 10\<rparr> 1 0,
           cellGeometry ''BlockImage'' 0xFF00FF00 \<lparr>d_width = 10, d_height = 10\<rparr> 0 1,
           cellGeometry ''BlockImage'' 0xFF00FF00 \<lparr>d_width = 10, d_height = 10\<rparr> 1 1]"
    using fits drag by (simp add: valid_free drawn_free geo sizes Let_def)
  have r: "\<not> currentDropTargetIsValid
     (onMoved example_inventory_externals (example_store [(2, 2)]) example_item) \<and>
   map_option d_geometryBuffers
     (populateGeometryBuffer example_inventory_externals (example_store [(2, 2)])
        (onMoved example_inventory_externals (example_store [(2, 2)]) example_item)) =
     Some [cellGeometry ''BlockImage'' 0xFFFF0000 \<lparr>d_width = 12, d_height = 12\<rparr> 0 0,
           cellGeometry ''BlockImage'' 0xFFFF0000 \<lparr>d_width = 12, d_height = 12\<rparr> 1 0,
           cellGeometry ''BlockImage'' 0xFFFF0000 \<lparr>d_width = 12, d_height = 12\<rparr> 0 1,
           cellGeometry ''BlockImage'' 0xFFFF0000 \<lparr>d_width = 12, d_height = 12\<rparr> 1 1]"
    using overlaps drag by (simp add: valid_taken drawn_taken geo sizes Let_def)
  from cell [of "[(3, 3)]"] fits overlaps g r show ?thesis by simp
qed

subsection \<open>Inventory item: change of the drop target\<close>

text \<open>
  C10. Right after \<open>onDragDropTargetChanged\<close>, \<open>currentDropTargetIsValid\<close> is true if and only
  if the new drop target (the one the base class processing has set) is an
  InventoryReceiver. No fit check is made: the result is the same whatever the receivers'
  \<open>itemWillFitAtLocation\<close> answers, so an item over a receiver whose cells are occupied
  reports a valid drop target until the next \<open>onMoved\<close> recomputes the fit.
\<close>

theorem onDragDropTargetChanged_no_fit_check:
  "currentDropTargetIsValid (onDragDropTargetChanged ext store e s0) =
     (dynamic_cast_InventoryReceiver store
        (d_dropTarget (DragContainer_onDragDropTargetChanged ext e s0)) \<noteq> None) \<and>
   currentDropTargetIsValid
     (onDragDropTargetChanged ext
        (\<lambda>p. map_option (\<lambda>r. r\<lparr>itemWillFitAtLocation := fit\<rparr>) (store p)) e s0) =
     currentDropTargetIsValid (onDragDropTargetChanged ext store e s0)"
  by (cases "d_dropTarget (DragContainer_onDragDropTargetChanged ext e s0)")
    (simp_all add: onDragDropTargetChanged_def currentDropTargetIsValid_def invalidate_def
      dynamic_cast_InventoryReceiver_def Let_def)

text \<open>
  The witness: the example item comes over the receiver (window 7) whose cell (2,2) is
  occupied, where it does not fit. After the change of target it reports a valid target;
  after the next move it does not.
\<close>

theorem onDragDropTargetChanged_no_fit_check_witness:
  "\<not> itemWillFitAtLocation (example_receiver [(2, 2)]) (invalidate example_item) 1 1 \<and>
   currentDropTargetIsValid
     (onDragDropTargetChanged example_inventory_externals (example_store [(2, 2)])
        \<lparr>window = Some 7\<rparr> (example_item\<lparr>d_dropTarget := None\<rparr>)) \<and>
   \<not> currentDropTargetIsValid
     (onMoved example_inventory_externals (example_store [(2, 2)])
        (onDragDropTargetChanged example_inventory_externals (example_store [(2, 2)])
           \<lparr>window = Some 7\<rparr> (example_item\<lparr>d_dropTarget := None\<rparr>))) \<and>
   \<not> currentDropTargetIsValid
     (onDragDropTargetChanged example_inventory_externals (example_store [(2, 2)])
        \<lparr>window = Some 8\<rparr> example_item)"
  using onDragDropTargetChanged_no_fit_check
      [of example_inventory_externals "example_store [(2, 2)]" "\<lparr>window = Some 7\<rparr>"
        "example_item\<lparr>d_dropTarget := None\<rparr>"]
    onDragDropTargetChanged_no_fit_check
      [of example_inventory_externals "example_store [(2, 2)]" "\<lparr>window = Some 8\<rparr>"
        example_item]
  by (simp add: onDragDropTargetChanged_def onMoved_def currentDropTargetIsValid_def
      invalidate_def dynamic_cast_InventoryReceiver_def example_inventory_externals_def
      example_store_def example_item_def example_receiver_def solid_2x2_def
      receiverCellUnderItem_def Rectf_offset_def rectf_def Let_def)

end
